theory Spec2Isabelle
  imports Complex_Main "HOL-Library.Word"
begin

unbundle bit_operations_syntax

section \<open>Data model\<close>

text \<open>
  The C integer types are words of their width. An \<open>f32\<close> is modelled by a real number:
  comparisons and the arithmetic of the stepper are exact in the model, so rounding,
  overflow to infinity and NaN operands are outside it. The one place where the source
  divides by a quantity it has not tested (\<open>transfer_bully_speed\<close>) is modelled with an
  explicit result for the undefined quotient.
\<close>

type_synonym u8 = "8 word"
type_synonym u16 = "16 word"
type_synonym s16 = "16 word"
type_synonym u32 = "32 word"
type_synonym s32 = "32 word"
type_synonym f32 = real

datatype vec3f = Vec3f (el0: f32) (el1: f32) (el2: f32)
datatype vec3s = Vec3s (ang0: s16) (ang1: s16) (ang2: s16)

definition C_FALSE :: "32 word" where "C_FALSE = 0"
definition C_TRUE :: "32 word" where "C_TRUE = 1"

subsection \<open>Collision-impulse transfer (mario_step.c, transfer_bully_speed)\<close>

record BullyCollisionData =
  conversionRatio :: f32
  radius :: f32
  posX :: f32
  posZ :: f32
  velX :: f32
  velZ :: f32

text \<open>
  Division of two \<open>f32\<close> values. With a zero divisor the C quotient is an infinity or a
  NaN, never a finite number: that outcome is \<open>None\<close>.
\<close>

definition fdiv :: "f32 \<Rightarrow> f32 \<Rightarrow> f32 option" where
  "fdiv a b = (if b = 0 then None else Some (a / b))"

text \<open>
  \<open>transfer_bully_speed\<close> writes the four velocities from the two projected speeds.
  \<open>None\<close>: a projected speed was not finite, and the velocities written from it are not
  finite either.
\<close>

definition transfer_bully_speed ::
  "BullyCollisionData \<Rightarrow> BullyCollisionData \<Rightarrow> (BullyCollisionData \<times> BullyCollisionData) option" where
  "transfer_bully_speed obj1 obj2 =
    (let rx = posX obj2 - posX obj1;
         rz = posZ obj2 - posZ obj1
     in case fdiv (rx * velX obj1 + rz * velZ obj1) (rx * rx + rz * rz) of
          None \<Rightarrow> None
        | Some projectedV1 \<Rightarrow>
          (case fdiv (- rx * velX obj2 - rz * velZ obj2) (rx * rx + rz * rz) of
             None \<Rightarrow> None
           | Some projectedV2 \<Rightarrow>
             Some (obj1\<lparr>velX := velX obj1 + (- projectedV1 * rx + conversionRatio obj1 * projectedV2 * - rx),
                        velZ := velZ obj1 + (- projectedV1 * rz + conversionRatio obj1 * projectedV2 * - rz)\<rparr>,
                   obj2\<lparr>velX := velX obj2 + (conversionRatio obj2 * projectedV1 * rx - projectedV2 * - rx),
                        velZ := velZ obj2 + (conversionRatio obj2 * projectedV1 * rz - projectedV2 * - rz)\<rparr>)))"

subsection \<open>Surfaces and the actor state\<close>

text \<open>
  A surface as this core reads it: the type tag, the flag bits (only bit 0 is read), the
  push force, the normal (\<open>el0\<close>, \<open>el1\<close>, \<open>el2\<close> are its x, y and z) and the origin
  offset. The vertices, bounds and owning object of \<open>struct Surface\<close> are not read by the
  modelled functions.
  A surface pointer is a \<open>Surface option\<close> (\<open>None\<close> is \<open>NULL\<close>) holding the surface by
  value.
\<close>

record Surface =
  surf_type :: s16
  surf_flags :: s16
  surf_force :: s16
  surf_normal :: vec3f
  surf_originOffset :: f32

text \<open>
  \<open>struct MarioState\<close>, with the fields the modelled functions touch. The fields reached
  through \<open>m->marioObj\<close>, \<open>m->area\<close> and \<open>m->marioBodyState\<close> are flattened into
  the record: \<open>hitboxHeight\<close>, \<open>gfxPos\<close>, \<open>gfxAngle\<close> and \<open>animLoopEnd\<close>
  (\<open>marioObj->header.gfx.animInfo.curAnim->loopEnd\<close>), \<open>terrainType\<close> and
  \<open>wingFlutter\<close>. \<open>heldObj\<close> tells whether an object is held. The field \<open>floor\<close> of
  the source is \<open>floor_ref\<close> here.
\<close>

record MarioState =
  playerIndex :: u16
  input :: u16
  flags :: u32
  action :: u32
  prevAction :: u32
  terrainSoundAddend :: u32
  actionState :: u16
  actionTimer :: u16
  actionArg :: u32
  faceAngle :: vec3s
  angleVel :: vec3s
  slideYaw :: s16
  pos :: vec3f
  vel :: vec3f
  forwardVel :: f32
  slideVelX :: f32
  slideVelZ :: f32
  wall :: "Surface option"
  ceil :: "Surface option"
  floor_ref :: "Surface option"
  ceilHeight :: f32
  floorHeight :: f32
  floorAngle :: s16
  waterLevel :: s16
  wallNormal :: vec3f
  heldObj :: bool
  hurtCounter :: u8
  squishTimer :: u8
  peakHeight :: f32
  quicksandDepth :: f32
  unkC4 :: f32
  terrainType :: u16
  hitboxHeight :: f32
  gfxPos :: vec3f
  gfxAngle :: vec3s
  animLoopEnd :: s16
  wingFlutter :: bool

text \<open>
  The globals the modelled functions write: the wall-search direction set around each
  quarter step, the synthetic water floor, and the error log (\<open>LOG_ERROR\<close> records the
  offending action identifier).
\<close>

record Globals =
  gFindWallDirection :: vec3f
  gFindWallDirectionActive :: bool
  gFindWallDirectionAirborne :: bool
  gWaterSurfacePseudoFloor :: Surface
  errorLog :: "u32 list"

datatype BouncyLevelBounds =
  BOUNCY_LEVEL_BOUNDS_OFF | BOUNCY_LEVEL_BOUNDS_ON | BOUNCY_LEVEL_BOUNDS_ON_CAP

datatype HazardType =
  HAZARD_TYPE_LAVA_FLOOR | HAZARD_TYPE_LAVA_WALL | HAZARD_TYPE_QUICKSAND
  | HAZARD_TYPE_HORIZONTAL_WIND | HAZARD_TYPE_VERTICAL_WIND

subsection \<open>Constants and collaborators\<close>

text \<open>
  The macros and enumerators of the headers (\<open>sm64.h\<close>, \<open>surface_terrains.h\<close>,
  \<open>mario_step.h\<close>) are not part of the sources and are parameters of the model: the
  action identifiers first, then the flags, surface types and step results. A surface
  type is compared as the 16-bit value it is stored as; the source widens it to 32 bits
  first, which changes no comparison with a constant that fits 16 bits.
\<close>

record Actions =
  ACT_QUICKSAND_DEATH :: u32
  ACT_TWIRLING :: u32
  ACT_SHOT_FROM_CANNON :: u32
  ACT_LONG_JUMP :: u32
  ACT_SLIDE_KICK :: u32
  ACT_BBH_ENTER_SPIN :: u32
  ACT_LAVA_BOOST :: u32
  ACT_FALL_AFTER_STAR_GRAB :: u32
  ACT_GETTING_BLOWN :: u32
  ACT_GROUND_POUND :: u32
  ACT_FLYING :: u32
  ACT_BUBBLED :: u32
  ACT_BUTT_STUCK_IN_GROUND :: u32
  ACT_HARD_BACKWARD_GROUND_KB :: u32
  ACT_GROUND_POUND_LAND :: u32
  ACT_BACKWARD_AIR_KB :: u32
  ACT_SQUISHED :: u32
  ACT_VERTICAL_WIND :: u32
  ACT_JUMP :: u32
  ACT_DOUBLE_JUMP :: u32
  ACT_FREEFALL :: u32
  ACT_HOLD_JUMP :: u32
  ACT_HOLD_FREEFALL :: u32
  ACT_SIDE_FLIP :: u32
  ACT_WALL_KICK_AIR :: u32
  ACT_WATER_JUMP :: u32
  ACT_HOLD_WATER_JUMP :: u32
  ACT_STEEP_JUMP :: u32
  ACT_BURNING_JUMP :: u32
  ACT_BURNING_FALL :: u32
  ACT_TRIPLE_JUMP :: u32
  ACT_BACKFLIP :: u32
  ACT_RIDING_SHELL_JUMP :: u32
  ACT_RIDING_SHELL_FALL :: u32
  ACT_DIVE :: u32
  ACT_AIR_THROW :: u32
  ACT_FORWARD_AIR_KB :: u32
  ACT_HARD_FORWARD_AIR_KB :: u32
  ACT_HARD_BACKWARD_AIR_KB :: u32
  ACT_SOFT_BONK :: u32
  ACT_AIR_HIT_WALL :: u32
  ACT_FORWARD_ROLLOUT :: u32
  ACT_BUTT_SLIDE_AIR :: u32
  ACT_HOLD_BUTT_SLIDE_AIR :: u32
  ACT_BACKWARD_ROLLOUT :: u32
  ACT_CRAZY_BOX_BOUNCE :: u32
  ACT_SPECIAL_TRIPLE_JUMP :: u32
  ACT_THROWN_FORWARD :: u32
  ACT_THROWN_BACKWARD :: u32
  ACT_FLYING_TRIPLE_JUMP :: u32
  ACT_JUMP_KICK :: u32
  ACT_RIDING_HOOT :: u32
  ACT_TOP_OF_POLE_JUMP :: u32

record Consts = Actions +
  ACT_FLAG_INTANGIBLE :: u32
  ACT_FLAG_RIDING_SHELL :: u32
  ACT_FLAG_INVULNERABLE :: u32
  ACT_FLAG_METAL_WATER :: u32
  ACT_FLAG_CONTROL_JUMP_HEIGHT :: u32
  ACT_FLAG_ALLOW_VERTICAL_WIND_ACTION :: u32
  MARIO_WING_CAP :: u32
  MARIO_CAP_ON_HEAD :: u32
  MARIO_UNKNOWN_08 :: u32
  MARIO_UNKNOWN_18 :: u32
  MARIO_UNKNOWN_30 :: u32
  MARIO_ACTION_SOUND_PLAYED :: u32
  INPUT_A_DOWN :: u16
  INPUT_SQUISHED :: u16
  SURFACE_DEFAULT :: s16
  SURFACE_BURNING :: s16
  SURFACE_HANGABLE :: s16
  SURFACE_SHALLOW_QUICKSAND :: s16
  SURFACE_SHALLOW_MOVING_QUICKSAND :: s16
  SURFACE_QUICKSAND :: s16
  SURFACE_MOVING_QUICKSAND :: s16
  SURFACE_DEEP_QUICKSAND :: s16
  SURFACE_DEEP_MOVING_QUICKSAND :: s16
  SURFACE_INSTANT_QUICKSAND :: s16
  SURFACE_INSTANT_MOVING_QUICKSAND :: s16
  SURFACE_HORIZONTAL_WIND :: s16
  SURFACE_VERTICAL_WIND :: s16
  TERRAIN_MASK :: u16
  TERRAIN_SNOW :: u16
  TERRAIN_SAND :: u16
  AIR_STEP_CHECK_LEDGE_GRAB :: u32
  AIR_STEP_CHECK_HANG :: u32
  AIR_STEP_NONE :: s32
  AIR_STEP_LANDED :: s32
  AIR_STEP_HIT_WALL :: s32
  AIR_STEP_GRABBED_LEDGE :: s32
  AIR_STEP_GRABBED_CEILING :: s32
  AIR_STEP_HIT_LAVA_WALL :: s32
  GROUND_STEP_LEFT_GROUND :: s32
  GROUND_STEP_NONE :: s32
  GROUND_STEP_HIT_WALL :: s32
  GROUND_STEP_HIT_WALL_STOP_QSTEPS :: s32
  GROUND_STEP_HIT_WALL_CONTINUE_QSTEPS :: s32

text \<open>
  The collaborators of the core, as functions:
  \<^item> the surface queries. \<open>resolve_and_return_wall_collisions_data\<close> reads the wall-search
    globals and returns the pushed position with the walls found (\<open>walls[0]\<close> first);
    \<open>find_floor\<close> and \<open>vec3f_mario_ceil\<close> return the height and the surface;
  \<^item> the trigonometry of \<open>math_util\<close>;
  \<^item> the scripting hooks. An allow-hook returns its decision, a value hook returns
    \<open>Some\<close> override or \<open>None\<close>, an action hook returns \<open>Some\<close> of what it did when it
    handled the call; a hook that only decides does not write the actor state. The
    notification \<open>HOOK_ON_COLLIDE_LEVEL_BOUNDS\<close> has no result and is left out;
  \<^item> the settings \<open>gServerSettings\<close>, \<open>gLevelValues\<close> and \<open>gDjuiInMainMenu\<close>;
  \<^item> functions of \<open>mario.c\<close> that are not part of the sources. \<open>mario_update_wall\<close>
    returns the wall reference and wall normal it stores; \<open>set_character_animation\<close>
    returns the loop end of the animation it makes current;
  \<^item> the action handlers other than \<open>act_ground_pound\<close>, by the name of the C function.
  Sound, rumble, camera and particle calls are fire-and-forget and are left out.
\<close>

record Env = Consts +
  find_floor :: "f32 \<Rightarrow> f32 \<Rightarrow> f32 \<Rightarrow> f32 \<times> Surface option"
  vec3f_mario_ceil :: "vec3f \<Rightarrow> f32 \<Rightarrow> f32 \<times> Surface option"
  find_water_level :: "f32 \<Rightarrow> f32 \<Rightarrow> f32"
  resolve_and_return_wall_collisions_data ::
    "Globals \<Rightarrow> vec3f \<Rightarrow> f32 \<Rightarrow> f32 \<Rightarrow> vec3f \<times> Surface list"
  sins :: "s16 \<Rightarrow> f32"
  coss :: "s16 \<Rightarrow> f32"
  atan2s :: "f32 \<Rightarrow> f32 \<Rightarrow> s16"
  vec3f_normalize :: "vec3f \<Rightarrow> vec3f"
  hook_allow_hazard_surface :: "MarioState \<Rightarrow> HazardType \<Rightarrow> bool"
  hook_allow_force_water_action :: "MarioState \<Rightarrow> bool \<Rightarrow> bool"
  hook_before_phys_step_air :: "MarioState \<Rightarrow> u32 \<Rightarrow> s32 option"
  hook_before_phys_step_ground :: "MarioState \<Rightarrow> s32 option"
  hook_override_phys_step_defacto_speed :: "MarioState \<Rightarrow> f32 option"
  action_hook_gravity :: "MarioState \<Rightarrow> MarioState option"
  action_hook_every_frame :: "MarioState \<times> Globals \<Rightarrow> (s32 \<times> MarioState \<times> Globals) option"
  bouncyLevelBounds :: BouncyLevelBounds
  fixCollisionBugs :: bool
  fixCollisionBugsFalseLedgeGrab :: bool
  fixCollisionBugsGroundPoundBonks :: bool
  gDjuiInMainMenu :: bool
  mario_update_wall :: "MarioState \<Rightarrow> Surface list \<Rightarrow> Surface option \<times> vec3f"
  mario_get_terrain_sound_addend :: "MarioState \<Rightarrow> u32"
  mario_floor_is_slippery :: "MarioState \<Rightarrow> bool"
  set_water_plunge_action :: "MarioState \<Rightarrow> s32 \<times> MarioState"
  set_character_animation :: "MarioState \<Rightarrow> string \<Rightarrow> s16"
  SURFACE_IS_NOT_HARD :: "s16 \<Rightarrow> bool"
  handlers :: "string \<Rightarrow> MarioState \<times> Globals \<Rightarrow> s32 \<times> MarioState \<times> Globals"

section \<open>Functions of mario.c used by the stepper\<close>

definition set_el1 :: "vec3f \<Rightarrow> f32 \<Rightarrow> vec3f" where
  "set_el1 v h = Vec3f (el0 v) h (el2 v)"

definition set_ang1 :: "vec3s \<Rightarrow> s16 \<Rightarrow> vec3s" where
  "set_ang1 v a = Vec3s (ang0 v) a (ang2 v)"

definition has_flag :: "'a::len word \<Rightarrow> 'a word \<Rightarrow> bool" where
  "has_flag w f = (w AND f \<noteq> 0)"

text \<open>
  Modelled from the spec: \<open>set_mario_action\<close> and \<open>drop_and_set_mario_action\<close> are
  defined in \<open>mario.c\<close>, which is not part of the sources. Section 4.1: changing the
  action identifier records the previous identifier, stores the supplied argument and
  resets the action-local state and timer to 0; the drop-and-set variant first releases
  the held object. The callers return its result as "a transition happened".
\<close>

definition set_mario_action :: "MarioState \<Rightarrow> u32 \<Rightarrow> u32 \<Rightarrow> u32 \<times> MarioState" where
  "set_mario_action m act arg =
    (C_TRUE, m\<lparr>prevAction := action m, action := act, actionArg := arg,
                actionState := 0, actionTimer := 0\<rparr>)"

definition drop_and_set_mario_action :: "MarioState \<Rightarrow> u32 \<Rightarrow> u32 \<Rightarrow> u32 \<times> MarioState" where
  "drop_and_set_mario_action m act arg = set_mario_action (m\<lparr>heldObj := False\<rparr>) act arg"

text \<open>
  Modelled from the spec: \<open>mario_set_forward_vel\<close> is defined in \<open>mario.c\<close>. Section 3:
  the horizontal velocity is derivable from the forward velocity and the facing yaw, and
  the slide velocity is the horizontal vector driven with it.
\<close>

definition mario_set_forward_vel :: "Env \<Rightarrow> MarioState \<Rightarrow> f32 \<Rightarrow> MarioState" where
  "mario_set_forward_vel e m forwardVel' =
    (let sx = sins e (ang1 (faceAngle m)) * forwardVel';
         sz = coss e (ang1 (faceAngle m)) * forwardVel'
     in m\<lparr>forwardVel := forwardVel', slideVelX := sx, slideVelZ := sz,
          vel := Vec3f sx (el1 (vel m)) sz\<rparr>)"

text \<open>
  Modelled from the spec: \<open>play_sound_if_no_flag\<close> is defined in \<open>mario.c\<close>. Section 3
  lists the flag "sound already played this action": the call latches the flag; the
  sound itself is left out.
\<close>

definition play_sound_if_no_flag :: "MarioState \<Rightarrow> u32 \<Rightarrow> MarioState" where
  "play_sound_if_no_flag m flag = m\<lparr>flags := flags m OR flag\<rparr>"

definition clamp_f32 :: "f32 \<Rightarrow> f32 \<Rightarrow> f32 \<Rightarrow> f32" where
  "clamp_f32 v lo hi = (if v < lo then lo else if v > hi then hi else v)"

section \<open>The collision stepper (mario_step.c)\<close>

subsection \<open>Quicksand\<close>


subsection \<open>Ledge grab\<close>

text \<open>
  \<open>check_ledge_grab\<close>, after its NULL test; \<open>wall\<close> is the wall the caller took from
  the lower probe. Every \<open>return FALSE\<close> comes before the first write.
\<close>

definition check_ledge_grab ::
  "Env \<Rightarrow> MarioState \<Rightarrow> Surface \<Rightarrow> vec3f \<Rightarrow> vec3f \<Rightarrow> u32 \<times> MarioState" where
  "check_ledge_grab e m wall_s intendedPos nextPos =
    (if el1 (vel m) > 0 then (C_FALSE, m)
     else
       let displacementX = el0 nextPos - el0 intendedPos;
           displacementZ = el2 nextPos - el2 intendedPos
       in
       if displacementX * el0 (vel m) + displacementZ * el2 (vel m) > 0 then (C_FALSE, m)
       else
         let ledgeX = el0 nextPos - el0 (surf_normal wall_s) * 60;
             ledgeZ = el2 nextPos - el2 (surf_normal wall_s) * 60;
             (ledgeY, ledgeFloor) = find_floor e ledgeX (el1 nextPos + hitboxHeight m) ledgeZ
         in
         case ledgeFloor of
           None \<Rightarrow> (C_FALSE, m)
         | Some lf \<Rightarrow>
             if fixCollisionBugs e \<and> fixCollisionBugsFalseLedgeGrab e
                \<and> el1 (surf_normal lf) < 0.90630779 then (C_FALSE, m)
             else if ledgeY - el1 nextPos \<le> 100 then (C_FALSE, m)
             else
               (C_TRUE,
                m\<lparr>pos := Vec3f ledgeX ledgeY ledgeZ,
                  floor_ref := Some lf,
                  floorHeight := ledgeY,
                  floorAngle := atan2s e (el2 (surf_normal lf)) (el0 (surf_normal lf)),
                  faceAngle := Vec3s 0
                     (atan2s e (el2 (surf_normal wall_s)) (el0 (surf_normal wall_s)) + 0x8000)
                     (ang2 (faceAngle m))\<rparr>))"

subsection \<open>Air quarter step\<close>

text \<open>
  The locals of \<open>perform_air_quarter_step\<close> once its surface queries are done: the
  position pushed out of the walls by the upper and then the lower probe, the walls of
  both probes, the floor and ceiling at that position and the water level.
\<close>

record AirQueries =
  nextPos :: vec3f
  upperWalls :: "Surface list"
  lowerWalls :: "Surface list"
  q_floor :: "Surface option"
  q_floorHeight :: f32
  q_ceil :: "Surface option"
  q_ceilHeight :: f32
  q_waterLevel :: f32

definition air_quarter_step_queries :: "Env \<Rightarrow> Globals \<Rightarrow> vec3f \<Rightarrow> AirQueries" where
  "air_quarter_step_queries e g intendedPos =
    (let (p1, upper) = resolve_and_return_wall_collisions_data e g intendedPos 150 50;
         (p2, lower) = resolve_and_return_wall_collisions_data e g p1 30 50;
         (fh, fl) = find_floor e (el0 p2) (el1 p2) (el2 p2);
         (ch, cl) = vec3f_mario_ceil e p2 fh
     in \<lparr>nextPos = p2, upperWalls = upper, lowerWalls = lower, q_floor = fl,
         q_floorHeight = fh, q_ceil = cl, q_ceilHeight = ch,
         q_waterLevel = find_water_level e (el0 p2) (el2 p2)\<rparr>)"

text \<open>
  The floor a quarter step lands on: the floor found, or for a shell rider above water
  that a hook does not veto, the synthetic water floor at the water level (whose origin
  offset the source overwrites).
\<close>

definition water_pseudo_floor ::
  "Env \<Rightarrow> Globals \<Rightarrow> MarioState \<Rightarrow> f32 \<Rightarrow> Surface option \<Rightarrow> f32
    \<Rightarrow> f32 \<times> Surface option \<times> Globals" where
  "water_pseudo_floor e g m floorHeight' floor' waterLevel' =
    (if has_flag (action m) (ACT_FLAG_RIDING_SHELL e) \<and> floorHeight' < waterLevel'
        \<and> hook_allow_force_water_action e m False then
       (let pf = (gWaterSurfacePseudoFloor g)\<lparr>surf_originOffset := waterLevel'\<rparr>
        in (waterLevel', Some pf, g\<lparr>gWaterSurfacePseudoFloor := pf\<rparr>))
     else (floorHeight', floor', g))"

text \<open>
  The level-boundary reaction shared by both quarter steps: with bouncy bounds on, turn
  around and scale the forward velocity by 1.5 (clamped to 500 in the capped mode).
\<close>

definition bounce_off_level_bounds :: "Env \<Rightarrow> MarioState \<Rightarrow> MarioState" where
  "bounce_off_level_bounds e m =
    (if bouncyLevelBounds e \<noteq> BOUNCY_LEVEL_BOUNDS_OFF then
       (let m1 = m\<lparr>faceAngle := set_ang1 (faceAngle m) (ang1 (faceAngle m) + 0x8000)\<rparr>
        in mario_set_forward_vel e m1
             (if bouncyLevelBounds e = BOUNCY_LEVEL_BOUNDS_ON_CAP
              then clamp_f32 (1.5 * forwardVel m1) (- 500) 500
              else 1.5 * forwardVel m1))
     else m)"

text \<open>
  The wall loops run over \<open>walls[0..numWalls-1]\<close>; with \<open>fixCollisionBugs\<close> off the
  source jumps to the last wall in its first iteration, so only that wall is looked at.
\<close>

definition walls_to_check :: "Env \<Rightarrow> Surface list \<Rightarrow> Surface list" where
  "walls_to_check e ws = (if fixCollisionBugs e \<or> ws = [] then ws else [last ws])"

fun ledge_grab_loop ::
  "Env \<Rightarrow> MarioState \<Rightarrow> Surface list \<Rightarrow> vec3f \<Rightarrow> vec3f \<Rightarrow> bool \<times> MarioState" where
  "ledge_grab_loop e m [] intendedPos np = (False, m)"
| "ledge_grab_loop e m (w # ws) intendedPos np =
    (let (r, m1) = check_ledge_grab e m w intendedPos np
     in if r \<noteq> 0 then (True, m1) else ledge_grab_loop e m1 ws intendedPos np)"

fun air_wall_loop :: "Env \<Rightarrow> MarioState \<Rightarrow> Surface list \<Rightarrow> s32 \<times> MarioState" where
  "air_wall_loop e m [] = (AIR_STEP_NONE e, m)"
| "air_wall_loop e m (w # ws) =
    (let wallDYaw = atan2s e (el2 (surf_normal w)) (el0 (surf_normal w)) - ang1 (faceAngle m)
     in if surf_type w = SURFACE_BURNING e then
          (AIR_STEP_HIT_LAVA_WALL e, m\<lparr>wall := Some w\<rparr>)
        else if sint wallDYaw < - 0x6000 \<or> sint wallDYaw > 0x6000 then
          (AIR_STEP_HIT_WALL e, m\<lparr>wall := Some w, flags := flags m OR MARIO_UNKNOWN_30 e\<rparr>)
        else air_wall_loop e m ws)"

definition store_wall :: "Env \<Rightarrow> MarioState \<Rightarrow> Surface list \<Rightarrow> MarioState" where
  "store_wall e m ws =
    (let (w, n) = mario_update_wall e m ws in m\<lparr>wall := w, wallNormal := n\<rparr>)"

text \<open>\<open>perform_air_quarter_step\<close>, after its NULL test.\<close>

definition perform_air_quarter_step ::
  "Env \<Rightarrow> Globals \<Rightarrow> MarioState \<Rightarrow> vec3f \<Rightarrow> u32 \<Rightarrow> s32 \<times> MarioState \<times> Globals" where
  "perform_air_quarter_step e g m0 intendedPos stepArg =
    (let q = air_quarter_step_queries e g intendedPos;
         np = nextPos q;
         m = m0\<lparr>wall := None\<rparr>
     in
     if q_floor q = None then
       (if el1 np \<le> floorHeight m then
          (AIR_STEP_LANDED e, m\<lparr>pos := set_el1 (pos m) (floorHeight m)\<rparr>, g)
        else
          (AIR_STEP_HIT_WALL e,
           bounce_off_level_bounds e (m\<lparr>pos := set_el1 (pos m) (el1 np)\<rparr>), g))
     else
       let (floorHeight', floor', g1) =
             water_pseudo_floor e g m (q_floorHeight q) (q_floor q) (q_waterLevel q)
       in
       if el1 np \<le> floorHeight' then
         (let m1 = (if q_ceilHeight q - floorHeight' > hitboxHeight m
                    then m\<lparr>pos := Vec3f (el0 np) (el1 (pos m)) (el2 np),
                           floor_ref := floor', floorHeight := floorHeight'\<rparr>
                    else m)
          in (AIR_STEP_LANDED e, m1\<lparr>pos := set_el1 (pos m1) floorHeight'\<rparr>, g1))
       else if el1 np + hitboxHeight m > q_ceilHeight q then
         (if el1 (vel m) \<ge> 0 then
            (let m1 = m\<lparr>vel := set_el1 (vel m) 0\<rparr> in
             if has_flag stepArg (AIR_STEP_CHECK_HANG e)
                \<and> (case ceil m1 of None \<Rightarrow> False | Some c \<Rightarrow> surf_type c = SURFACE_HANGABLE e)
             then (AIR_STEP_GRABBED_CEILING e, m1, g1)
             else (AIR_STEP_NONE e, m1, g1))
          else if el1 np \<le> floorHeight m then
            (AIR_STEP_LANDED e, m\<lparr>pos := set_el1 (pos m) (floorHeight m)\<rparr>, g1)
          else
            (AIR_STEP_HIT_WALL e, m\<lparr>pos := set_el1 (pos m) (el1 np)\<rparr>, g1))
       else if has_flag stepArg (AIR_STEP_CHECK_LEDGE_GRAB e) \<and> upperWalls q = []
               \<and> lowerWalls q \<noteq> [] then
         (case ledge_grab_loop e m (walls_to_check e (lowerWalls q)) intendedPos np of
            (True, m1) \<Rightarrow> (AIR_STEP_GRABBED_LEDGE e, m1, g1)
          | (False, m1) \<Rightarrow>
              (AIR_STEP_NONE e,
               m1\<lparr>pos := np, floor_ref := floor', floorHeight := floorHeight'\<rparr>, g1))
       else
         let m1 = m\<lparr>pos := np, floor_ref := floor', floorHeight := floorHeight'\<rparr> in
         if upperWalls q \<noteq> [] then
           (let (r, m2) = air_wall_loop e (store_wall e m1 (upperWalls q))
                             (walls_to_check e (upperWalls q))
            in (r, m2, g1))
         else if lowerWalls q \<noteq> [] then
           (let (r, m2) = air_wall_loop e (store_wall e m1 (lowerWalls q))
                             (walls_to_check e (lowerWalls q))
            in (r, m2, g1))
         else (AIR_STEP_NONE e, m1, g1))"

subsection \<open>Gravity and vertical wind\<close>

definition apply_twirl_gravity :: "MarioState \<Rightarrow> MarioState" where
  "apply_twirl_gravity m =
    (let heaviness = (if sint (ang1 (angleVel m)) > 1024
                      then 1024 / real_of_int (sint (ang1 (angleVel m))) else 1);
         terminalVelocity = - 75 * heaviness;
         vy = el1 (vel m) - 4 * heaviness
     in m\<lparr>vel := set_el1 (vel m) (if vy < terminalVelocity then terminalVelocity else vy)\<rparr>)"

definition should_strengthen_gravity_for_jump_ascent :: "Env \<Rightarrow> MarioState \<Rightarrow> bool" where
  "should_strengthen_gravity_for_jump_ascent e m =
    (if \<not> has_flag (flags m) (MARIO_UNKNOWN_08 e) then False
     else if has_flag (action m) (ACT_FLAG_INTANGIBLE e OR ACT_FLAG_INVULNERABLE e) then False
     else if \<not> has_flag (input m) (INPUT_A_DOWN e) \<and> el1 (vel m) > 20 then
       has_flag (action m) (ACT_FLAG_CONTROL_JUMP_HEIGHT e)
     else False)"

definition fall_with :: "MarioState \<Rightarrow> f32 \<Rightarrow> f32 \<Rightarrow> MarioState" where
  "fall_with m accel terminal =
    (let vy = el1 (vel m) - accel
     in m\<lparr>vel := set_el1 (vel m) (if vy < terminal then terminal else vy)\<rparr>)"

text \<open>
  \<open>apply_gravity\<close>, after its NULL test. \<open>fall_with m a t\<close> is the recurring pair
  \<open>vel[1] -= a; if (vel[1] < t) vel[1] = t\<close>.
\<close>

definition apply_gravity :: "Env \<Rightarrow> MarioState \<Rightarrow> MarioState" where
  "apply_gravity e m =
    (case action_hook_gravity e m of
       Some m1 \<Rightarrow> m1
     | None \<Rightarrow>
       if action m = ACT_TWIRLING e \<and> el1 (vel m) < 0 then apply_twirl_gravity m
       else if action m = ACT_SHOT_FROM_CANNON e then fall_with m 1 (- 75)
       else if action m = ACT_LONG_JUMP e \<or> action m = ACT_SLIDE_KICK e
               \<or> action m = ACT_BBH_ENTER_SPIN e then fall_with m 2 (- 75)
       else if action m = ACT_LAVA_BOOST e
               \<or> action m = ACT_FALL_AFTER_STAR_GRAB e then fall_with m 3.2 (- 65)
       else if action m = ACT_GETTING_BLOWN e then fall_with m (unkC4 m) (- 75)
       else if should_strengthen_gravity_for_jump_ascent e m then
         m\<lparr>vel := set_el1 (vel m) (el1 (vel m) / 4)\<rparr>
       else if has_flag (action m) (ACT_FLAG_METAL_WATER e) then fall_with m 1.6 (- 16)
       else if has_flag (flags m) (MARIO_WING_CAP e) \<and> el1 (vel m) < 0
               \<and> has_flag (input m) (INPUT_A_DOWN e) then
         (let vy = el1 (vel m) - 2;
              vy' = (if vy < - 37.5 then (if vy + 4 > - 37.5 then - 37.5 else vy + 4) else vy)
          in m\<lparr>wingFlutter := True, vel := set_el1 (vel m) vy'\<rparr>)
       else fall_with m 4 (- 75))"

text \<open>\<open>apply_vertical_wind\<close>, after its NULL test.\<close>

definition apply_vertical_wind :: "Env \<Rightarrow> MarioState \<Rightarrow> MarioState" where
  "apply_vertical_wind e m =
    (let allow = hook_allow_hazard_surface e m HAZARD_TYPE_VERTICAL_WIND in
     if action m \<noteq> ACT_GROUND_POUND e \<and> allow then
       (let offsetY = el1 (pos m) - (- 1500) in
        if (case floor_ref m of None \<Rightarrow> False | Some f \<Rightarrow> surf_type f = SURFACE_VERTICAL_WIND e)
           \<and> - 3000 < offsetY \<and> offsetY < 2000 then
          (let maxVelY = (if offsetY \<ge> 0 then 10000 / (offsetY + 200) else 50) in
           if el1 (vel m) < maxVelY then
             (let vy = el1 (vel m) + maxVelY / 8
              in m\<lparr>vel := set_el1 (vel m) (if vy > maxVelY then maxVelY else vy)\<rparr>)
           else m)
        else m)
     else m)"

subsection \<open>Air step\<close>

definition stops_air_step :: "Env \<Rightarrow> s32 \<Rightarrow> bool" where
  "stops_air_step e r =
    (r = AIR_STEP_LANDED e \<or> r = AIR_STEP_GRABBED_LEDGE e
     \<or> r = AIR_STEP_GRABBED_CEILING e \<or> r = AIR_STEP_HIT_LAVA_WALL e)"

text \<open>
  One pass of the body of the loop of \<open>perform_air_step\<close> up to the bookkeeping of the
  result: the intended position a quarter of the velocity ahead, the wall-search globals
  set around the call, and the quarter step.
\<close>

definition air_step_iteration ::
  "Env \<Rightarrow> Globals \<Rightarrow> MarioState \<Rightarrow> u32 \<Rightarrow> s32 \<times> MarioState \<times> Globals" where
  "air_step_iteration e g m stepArg =
    (let step = Vec3f (el0 (vel m) / 4) (el1 (vel m) / 4) (el2 (vel m) / 4);
         intendedPos = Vec3f (el0 (pos m) + el0 step) (el1 (pos m) + el1 step)
                             (el2 (pos m) + el2 step);
         g1 = g\<lparr>gFindWallDirection := vec3f_normalize e step,
                gFindWallDirectionActive := True, gFindWallDirectionAirborne := True\<rparr>;
         (quarterStepResult, m1, g2) = perform_air_quarter_step e g1 m intendedPos stepArg
     in (quarterStepResult, m1,
         g2\<lparr>gFindWallDirectionAirborne := False, gFindWallDirectionActive := False\<rparr>))"

text \<open>
  The loop \<open>for (i = 0; i < 4; i++)\<close>, with the number of iterations left as first
  argument and the running \<open>stepResult\<close> as last.
\<close>

fun air_step_loop ::
  "nat \<Rightarrow> Env \<Rightarrow> Globals \<Rightarrow> MarioState \<Rightarrow> u32 \<Rightarrow> s32 \<Rightarrow> s32 \<times> MarioState \<times> Globals" where
  "air_step_loop 0 e g m stepArg stepResult = (stepResult, m, g)"
| "air_step_loop (Suc n) e g m stepArg stepResult =
    (let (quarterStepResult, m1, g1) = air_step_iteration e g m stepArg;
         stepResult1 = (if quarterStepResult \<noteq> AIR_STEP_NONE e then quarterStepResult
                        else stepResult)
     in if stops_air_step e quarterStepResult then (stepResult1, m1, g1)
        else air_step_loop n e g1 m1 stepArg stepResult1)"


text \<open>\<open>perform_air_step\<close>, after its NULL test.\<close>

definition perform_air_step ::
  "Env \<Rightarrow> Globals \<Rightarrow> MarioState \<Rightarrow> u32 \<Rightarrow> s32 \<times> MarioState \<times> Globals" where
  "perform_air_step e g m stepArg =
    (case hook_before_phys_step_air e m stepArg of
       Some returnValue \<Rightarrow> (returnValue, m, g)
     | None \<Rightarrow>
       let (stepResult, m1, g1) =
             air_step_loop 4 e g (m\<lparr>wall := None\<rparr>) stepArg (AIR_STEP_NONE e);
           m2 = (if el1 (vel m1) \<ge> 0 then m1\<lparr>peakHeight := el1 (pos m1)\<rparr> else m1);
           m3 = m2\<lparr>terrainSoundAddend := mario_get_terrain_sound_addend e m2\<rparr>;
           m4 = (if action m3 \<noteq> ACT_FLYING e \<and> action m3 \<noteq> ACT_BUBBLED e
                 then apply_gravity e m3 else m3);
           m5 = apply_vertical_wind e m4
       in (stepResult,
           m5\<lparr>gfxPos := pos m5, gfxAngle := Vec3s 0 (ang1 (faceAngle m5)) 0\<rparr>, g1))"

subsection \<open>Ground step\<close>






section \<open>Airborne actions (mario_actions_airborne.c)\<close>

subsection \<open>Fall damage\<close>

text \<open>
  \<open>check_fall_damage\<close>, after its NULL test; \<open>damageHeight\<close> is the constant 1150 (the
  ground-pound alternative is commented out in the source). \<open>hurtCounter\<close> is an
  unsigned 8-bit counter: \<open>+=\<close> is addition of words.
\<close>

definition check_fall_damage :: "Env \<Rightarrow> MarioState \<Rightarrow> u32 \<Rightarrow> s32 \<times> MarioState" where
  "check_fall_damage e m hardFallAction =
    (let fallHeight = peakHeight m - el1 (pos m);
         damageHeight = 1150
     in
     if action m \<noteq> ACT_TWIRLING e
        \<and> (case floor_ref m of None \<Rightarrow> False | Some f \<Rightarrow> surf_type f \<noteq> SURFACE_BURNING e) then
       (if el1 (vel m) < - 55 then
          (if fallHeight > 3000 then
             drop_and_set_mario_action
               (m\<lparr>hurtCounter := hurtCounter m
                     + (if has_flag (flags m) (MARIO_CAP_ON_HEAD e) then 16 else 24)\<rparr>)
               hardFallAction 4
           else if fallHeight > damageHeight \<and> \<not> mario_floor_is_slippery e m then
             (C_FALSE,
              m\<lparr>hurtCounter := hurtCounter m
                    + (if has_flag (flags m) (MARIO_CAP_ON_HEAD e) then 8 else 12),
                squishTimer := 30\<rparr>)
           else (C_FALSE, m))
        else (C_FALSE, m))
     else (C_FALSE, m))"

text \<open>\<open>should_get_stuck_in_ground\<close>, after its NULL test.\<close>

definition should_get_stuck_in_ground :: "Env \<Rightarrow> MarioState \<Rightarrow> bool" where
  "should_get_stuck_in_ground e m =
    (case floor_ref m of
       None \<Rightarrow> False
     | Some f \<Rightarrow>
         (let terrain = terrainType m AND TERRAIN_MASK e in
          (terrain = TERRAIN_SNOW e \<or> terrain = TERRAIN_SAND e)
          \<and> surf_type f \<noteq> SURFACE_BURNING e \<and> SURFACE_IS_NOT_HARD e (surf_type f)
          \<and> \<not> has_flag (surf_flags f) 0x01 \<and> peakHeight m - el1 (pos m) > 1000
          \<and> el1 (surf_normal f) \<ge> 0.8660254))"

subsection \<open>Horizontal wind\<close>




subsection \<open>The ground pound\<close>

text \<open>
  \<open>act_ground_pound\<close>, after its NULL test, in three parts: the body of the branch
  \<open>actionState == 0\<close> (\<open>ground_pound_rise\<close>), the reaction of the other branch to the
  result of its air step (\<open>ground_pound_step_reaction\<close>), and the handler. Every path
  returns \<open>FALSE\<close>. \<open>actionTimer\<close> is an unsigned and the loop end a signed 16-bit
  value; the source compares and subtracts them as \<open>int\<close>.
\<close>

definition ground_pound_rise :: "Env \<Rightarrow> MarioState \<Rightarrow> MarioState" where
  "ground_pound_rise e m =
    (let yOffset = real_of_int (20 - 2 * uint (actionTimer m));
         m1 = (if uint (actionTimer m) < 10 \<and> el1 (pos m) + yOffset + 160 < ceilHeight m
               then (let p = set_el1 (pos m) (el1 (pos m) + yOffset)
                     in m\<lparr>pos := p, peakHeight := el1 p, gfxPos := p\<rparr>)
               else m);
         m2 = mario_set_forward_vel e (m1\<lparr>vel := set_el1 (vel m1) (- 50)\<rparr>) 0;
         m3 = m2\<lparr>animLoopEnd := set_character_animation e m2
                    (if actionArg m2 = 0 then ''CHAR_ANIM_START_GROUND_POUND''
                     else ''CHAR_ANIM_TRIPLE_JUMP_GROUND_POUND'')\<rparr>;
         m4 = m3\<lparr>actionTimer := actionTimer m3 + 1\<rparr>
     in if uint (actionTimer m4) \<ge> sint (animLoopEnd m4) + 4
        then m4\<lparr>actionState := 1\<rparr> else m4)"

definition ground_pound_step_reaction :: "Env \<Rightarrow> s32 \<Rightarrow> MarioState \<Rightarrow> MarioState" where
  "ground_pound_step_reaction e stepResult m =
    (if stepResult = AIR_STEP_LANDED e then
       (if should_get_stuck_in_ground e m then
          snd (set_mario_action m (ACT_BUTT_STUCK_IN_GROUND e) 0)
        else
          (let (damaged, m1) = check_fall_damage e m (ACT_HARD_BACKWARD_GROUND_KB e)
           in if damaged = 0 then snd (set_mario_action m1 (ACT_GROUND_POUND_LAND e) 0)
              else m1))
     else if stepResult = AIR_STEP_HIT_WALL e then
       (if fixCollisionBugs e \<and> fixCollisionBugsGroundPoundBonks e then m
        else
          (let m1 = mario_set_forward_vel e m (- 16);
               m2 = (if el1 (vel m1) > 0 then m1\<lparr>vel := set_el1 (vel m1) 0\<rparr> else m1)
           in snd (set_mario_action m2 (ACT_BACKWARD_AIR_KB e) 0)))
     else m)"

definition act_ground_pound ::
  "Env \<Rightarrow> MarioState \<times> Globals \<Rightarrow> s32 \<times> MarioState \<times> Globals" where
  "act_ground_pound e mg =
    (let g = snd mg;
         m = play_sound_if_no_flag (fst mg) (MARIO_ACTION_SOUND_PLAYED e)
     in
     if actionState m = 0 then (C_FALSE, ground_pound_rise e m, g)
     else
       (let m1 = m\<lparr>animLoopEnd := set_character_animation e m ''CHAR_ANIM_GROUND_POUND''\<rparr>;
            (stepResult, m2, g1) = perform_air_step e g m1 0
        in (C_FALSE, ground_pound_step_reaction e stepResult m2, g1)))"

subsection \<open>The dispatcher\<close>

text \<open>\<open>play_far_fall_sound\<close>, after its NULL test: the flag it latches.\<close>

definition play_far_fall_sound :: "Env \<Rightarrow> MarioState \<Rightarrow> MarioState" where
  "play_far_fall_sound e m =
    (if \<not> has_flag (action m) (ACT_FLAG_INVULNERABLE e) \<and> action m \<noteq> ACT_TWIRLING e
        \<and> action m \<noteq> ACT_FLYING e \<and> \<not> has_flag (flags m) (MARIO_UNKNOWN_18 e)
        \<and> peakHeight m - el1 (pos m) > 1150
     then m\<lparr>flags := flags m OR MARIO_UNKNOWN_18 e\<rparr> else m)"

text \<open>
  \<open>check_common_airborne_cancels\<close>, after its NULL test. \<open>waterLevel - 100\<close> is computed
  as \<open>int\<close> before the comparison with the height.
\<close>

definition check_common_airborne_cancels :: "Env \<Rightarrow> MarioState \<Rightarrow> s32 \<times> MarioState" where
  "check_common_airborne_cancels e m =
    (if el1 (pos m) < real_of_int (sint (waterLevel m) - 100)
        \<and> hook_allow_force_water_action e m False then set_water_plunge_action e m
     else if has_flag (input m) (INPUT_SQUISHED e) then
       drop_and_set_mario_action m (ACT_SQUISHED e) 0
     else if (case floor_ref m of None \<Rightarrow> False | Some f \<Rightarrow> surf_type f = SURFACE_VERTICAL_WIND e)
             \<and> has_flag (action m) (ACT_FLAG_ALLOW_VERTICAL_WIND_ACTION e)
             \<and> hook_allow_hazard_surface e m HAZARD_TYPE_VERTICAL_WIND then
       drop_and_set_mario_action m (ACT_VERTICAL_WIND e) 0
     else (C_FALSE, m\<lparr>quicksandDepth := 0\<rparr>))"

text \<open>
  The \<open>switch\<close> of \<open>mario_execute_airborne_action\<close>: each \<open>case\<close> label with the
  handler it calls, in the order of the source.
\<close>

definition airborne_action_table ::
  "((Env \<Rightarrow> u32) \<times> (Env \<Rightarrow> MarioState \<times> Globals \<Rightarrow> s32 \<times> MarioState \<times> Globals)) list" where
  "airborne_action_table =
    [(ACT_JUMP, \<lambda>e. handlers e ''act_jump''),
     (ACT_DOUBLE_JUMP, \<lambda>e. handlers e ''act_double_jump''),
     (ACT_FREEFALL, \<lambda>e. handlers e ''act_freefall''),
     (ACT_HOLD_JUMP, \<lambda>e. handlers e ''act_hold_jump''),
     (ACT_HOLD_FREEFALL, \<lambda>e. handlers e ''act_hold_freefall''),
     (ACT_SIDE_FLIP, \<lambda>e. handlers e ''act_side_flip''),
     (ACT_WALL_KICK_AIR, \<lambda>e. handlers e ''act_wall_kick_air''),
     (ACT_TWIRLING, \<lambda>e. handlers e ''act_twirling''),
     (ACT_WATER_JUMP, \<lambda>e. handlers e ''act_water_jump''),
     (ACT_HOLD_WATER_JUMP, \<lambda>e. handlers e ''act_hold_water_jump''),
     (ACT_STEEP_JUMP, \<lambda>e. handlers e ''act_steep_jump''),
     (ACT_BURNING_JUMP, \<lambda>e. handlers e ''act_burning_jump''),
     (ACT_BURNING_FALL, \<lambda>e. handlers e ''act_burning_fall''),
     (ACT_TRIPLE_JUMP, \<lambda>e. handlers e ''act_triple_jump''),
     (ACT_BACKFLIP, \<lambda>e. handlers e ''act_backflip''),
     (ACT_LONG_JUMP, \<lambda>e. handlers e ''act_long_jump''),
     (ACT_RIDING_SHELL_JUMP, \<lambda>e. handlers e ''act_riding_shell_air''),
     (ACT_RIDING_SHELL_FALL, \<lambda>e. handlers e ''act_riding_shell_air''),
     (ACT_DIVE, \<lambda>e. handlers e ''act_dive''),
     (ACT_AIR_THROW, \<lambda>e. handlers e ''act_air_throw''),
     (ACT_BACKWARD_AIR_KB, \<lambda>e. handlers e ''act_backward_air_kb''),
     (ACT_FORWARD_AIR_KB, \<lambda>e. handlers e ''act_forward_air_kb''),
     (ACT_HARD_FORWARD_AIR_KB, \<lambda>e. handlers e ''act_hard_forward_air_kb''),
     (ACT_HARD_BACKWARD_AIR_KB, \<lambda>e. handlers e ''act_hard_backward_air_kb''),
     (ACT_SOFT_BONK, \<lambda>e. handlers e ''act_soft_bonk''),
     (ACT_AIR_HIT_WALL, \<lambda>e. handlers e ''act_air_hit_wall''),
     (ACT_FORWARD_ROLLOUT, \<lambda>e. handlers e ''act_forward_rollout''),
     (ACT_SHOT_FROM_CANNON, \<lambda>e. handlers e ''act_shot_from_cannon''),
     (ACT_BUTT_SLIDE_AIR, \<lambda>e. handlers e ''act_butt_slide_air''),
     (ACT_HOLD_BUTT_SLIDE_AIR, \<lambda>e. handlers e ''act_hold_butt_slide_air''),
     (ACT_LAVA_BOOST, \<lambda>e. handlers e ''act_lava_boost''),
     (ACT_GETTING_BLOWN, \<lambda>e. handlers e ''act_getting_blown''),
     (ACT_BACKWARD_ROLLOUT, \<lambda>e. handlers e ''act_backward_rollout''),
     (ACT_CRAZY_BOX_BOUNCE, \<lambda>e. handlers e ''act_crazy_box_bounce''),
     (ACT_SPECIAL_TRIPLE_JUMP, \<lambda>e. handlers e ''act_special_triple_jump''),
     (ACT_GROUND_POUND, act_ground_pound),
     (ACT_THROWN_FORWARD, \<lambda>e. handlers e ''act_thrown_forward''),
     (ACT_THROWN_BACKWARD, \<lambda>e. handlers e ''act_thrown_backward''),
     (ACT_FLYING_TRIPLE_JUMP, \<lambda>e. handlers e ''act_flying_triple_jump''),
     (ACT_SLIDE_KICK, \<lambda>e. handlers e ''act_slide_kick''),
     (ACT_JUMP_KICK, \<lambda>e. handlers e ''act_jump_kick''),
     (ACT_FLYING, \<lambda>e. handlers e ''act_flying''),
     (ACT_RIDING_HOOT, \<lambda>e. handlers e ''act_riding_hoot''),
     (ACT_TOP_OF_POLE_JUMP, \<lambda>e. handlers e ''act_top_of_pole_jump''),
     (ACT_VERTICAL_WIND, \<lambda>e. handlers e ''act_vertical_wind'')]"

fun find_handler ::
  "Env \<Rightarrow> u32
    \<Rightarrow> ((Env \<Rightarrow> u32) \<times> (Env \<Rightarrow> MarioState \<times> Globals \<Rightarrow> s32 \<times> MarioState \<times> Globals)) list
    \<Rightarrow> (Env \<Rightarrow> MarioState \<times> Globals \<Rightarrow> s32 \<times> MarioState \<times> Globals) option" where
  "find_handler e a [] = None"
| "find_handler e a ((label, h) # rest) =
    (if a = label e then Some h else find_handler e a rest)"

text \<open>\<open>mario_execute_airborne_action\<close>, after its NULL test.\<close>

definition mario_execute_airborne_action ::
  "Env \<Rightarrow> MarioState \<times> Globals \<Rightarrow> s32 \<times> MarioState \<times> Globals" where
  "mario_execute_airborne_action e mg =
    (let g = snd mg;
         (cancelled, m1) = check_common_airborne_cancels e (fst mg)
     in
     if cancelled \<noteq> 0 then (C_TRUE, m1, g)
     else
       let m2 = play_far_fall_sound e m1 in
       case action_hook_every_frame e (m2, g) of
         Some r \<Rightarrow> r
       | None \<Rightarrow>
           (case find_handler e (action m2) airborne_action_table of
              Some h \<Rightarrow> h e (m2, g)
            | None \<Rightarrow>
                (C_FALSE, snd (set_mario_action m2 (ACT_FREEFALL e) 0),
                 g\<lparr>errorLog := errorLog g @ [action m2]\<rparr>)))"

subsection \<open>The NULL test of the entry points\<close>





section \<open>The overall result of an air step, in the words of the specification\<close>


section \<open>A sample configuration\<close>

text \<open>
  A small level to run the model on: a flat default floor at height 0 under every point,
  no ceiling below height 20000, water far below, no walls, no hook installed. The
  constants are a sample assignment.
\<close>

definition demo_floor :: Surface where
  "demo_floor = \<lparr>surf_type = 0, surf_flags = 0, surf_force = 0,
                  surf_normal = Vec3f 0 1 0, surf_originOffset = 0\<rparr>"

definition demo_env :: Env where
  "demo_env =
    \<lparr>ACT_QUICKSAND_DEATH = 0x00021312,
     ACT_TWIRLING = 0x108008A4,
     ACT_SHOT_FROM_CANNON = 0x00880898,
     ACT_LONG_JUMP = 0x03000888,
     ACT_SLIDE_KICK = 0x018008AA,
     ACT_BBH_ENTER_SPIN = 0x00001535,
     ACT_LAVA_BOOST = 0x010208B7,
     ACT_FALL_AFTER_STAR_GRAB = 0x00001904,
     ACT_GETTING_BLOWN = 0x010208B8,
     ACT_GROUND_POUND = 0x008008A9,
     ACT_FLYING = 0x10880899,
     ACT_BUBBLED = 0x00173FFF,
     ACT_BUTT_STUCK_IN_GROUND = 0x0002033B,
     ACT_HARD_BACKWARD_GROUND_KB = 0x00020460,
     ACT_GROUND_POUND_LAND = 0x0080023C,
     ACT_BACKWARD_AIR_KB = 0x010208B0,
     ACT_SQUISHED = 0x00020339,
     ACT_VERTICAL_WIND = 0x1008089C,
     ACT_JUMP = 0x03000880,
     ACT_DOUBLE_JUMP = 0x03000881,
     ACT_FREEFALL = 0x0100088C,
     ACT_HOLD_JUMP = 0x030008A0,
     ACT_HOLD_FREEFALL = 0x010008A1,
     ACT_SIDE_FLIP = 0x01000887,
     ACT_WALL_KICK_AIR = 0x03000886,
     ACT_WATER_JUMP = 0x01000889,
     ACT_HOLD_WATER_JUMP = 0x010008A3,
     ACT_STEEP_JUMP = 0x03000885,
     ACT_BURNING_JUMP = 0x010208B4,
     ACT_BURNING_FALL = 0x010208B5,
     ACT_TRIPLE_JUMP = 0x01000882,
     ACT_BACKFLIP = 0x01000883,
     ACT_RIDING_SHELL_JUMP = 0x0281089A,
     ACT_RIDING_SHELL_FALL = 0x0081089B,
     ACT_DIVE = 0x0188088A,
     ACT_AIR_THROW = 0x830008AB,
     ACT_FORWARD_AIR_KB = 0x010208B1,
     ACT_HARD_FORWARD_AIR_KB = 0x010208B2,
     ACT_HARD_BACKWARD_AIR_KB = 0x010208B3,
     ACT_SOFT_BONK = 0x010208B6,
     ACT_AIR_HIT_WALL = 0x000008A7,
     ACT_FORWARD_ROLLOUT = 0x010008A6,
     ACT_BUTT_SLIDE_AIR = 0x0300088E,
     ACT_HOLD_BUTT_SLIDE_AIR = 0x010008A2,
     ACT_BACKWARD_ROLLOUT = 0x010008AD,
     ACT_CRAZY_BOX_BOUNCE = 0x000008AE,
     ACT_SPECIAL_TRIPLE_JUMP = 0x030008AF,
     ACT_THROWN_FORWARD = 0x010208BD,
     ACT_THROWN_BACKWARD = 0x010208BE,
     ACT_FLYING_TRIPLE_JUMP = 0x03000894,
     ACT_JUMP_KICK = 0x018008AC,
     ACT_RIDING_HOOT = 0x000004A8,
     ACT_TOP_OF_POLE_JUMP = 0x0300088D,
     ACT_FLAG_INTANGIBLE = 0x1000, ACT_FLAG_RIDING_SHELL = 0x10000,
     ACT_FLAG_INVULNERABLE = 0x20000, ACT_FLAG_METAL_WATER = 0x4000,
     ACT_FLAG_CONTROL_JUMP_HEIGHT = 0x2000000, ACT_FLAG_ALLOW_VERTICAL_WIND_ACTION = 0x1000000,
     MARIO_WING_CAP = 0x8, MARIO_CAP_ON_HEAD = 0x10, MARIO_UNKNOWN_08 = 0x100,
     MARIO_UNKNOWN_18 = 0x40000, MARIO_UNKNOWN_30 = 0x40000000,
     MARIO_ACTION_SOUND_PLAYED = 0x10000,
     INPUT_A_DOWN = 0x80, INPUT_SQUISHED = 0x40,
     SURFACE_DEFAULT = 0x00, SURFACE_BURNING = 0x01, SURFACE_HANGABLE = 0x05,
     SURFACE_SHALLOW_QUICKSAND = 0x21, SURFACE_SHALLOW_MOVING_QUICKSAND = 0x25,
     SURFACE_QUICKSAND = 0x26, SURFACE_MOVING_QUICKSAND = 0x27,
     SURFACE_DEEP_QUICKSAND = 0x22, SURFACE_DEEP_MOVING_QUICKSAND = 0x24,
     SURFACE_INSTANT_QUICKSAND = 0x23, SURFACE_INSTANT_MOVING_QUICKSAND = 0x2D,
     SURFACE_HORIZONTAL_WIND = 0x2C, SURFACE_VERTICAL_WIND = 0x38,
     TERRAIN_MASK = 0x7, TERRAIN_SNOW = 0x2, TERRAIN_SAND = 0x3,
     AIR_STEP_CHECK_LEDGE_GRAB = 0x1, AIR_STEP_CHECK_HANG = 0x2,
     AIR_STEP_NONE = 0, AIR_STEP_LANDED = 1, AIR_STEP_HIT_WALL = 2,
     AIR_STEP_GRABBED_LEDGE = 3, AIR_STEP_GRABBED_CEILING = 4, AIR_STEP_HIT_LAVA_WALL = 6,
     GROUND_STEP_LEFT_GROUND = 0, GROUND_STEP_NONE = 1, GROUND_STEP_HIT_WALL = 2,
     GROUND_STEP_HIT_WALL_STOP_QSTEPS = 2, GROUND_STEP_HIT_WALL_CONTINUE_QSTEPS = 3,
     find_floor = (\<lambda>x y z. (0, Some demo_floor)),
     vec3f_mario_ceil = (\<lambda>p fh. (20000, None)),
     find_water_level = (\<lambda>x z. - 11000),
     resolve_and_return_wall_collisions_data = (\<lambda>g p offset r. (p, [])),
     sins = (\<lambda>a. if a = 0x4000 then 1 else if a = 0xC000 then - 1 else 0),
     coss = (\<lambda>a. if a = 0 then 1 else if a = 0x8000 then - 1 else 0),
     atan2s = (\<lambda>y x. if y = 0 \<and> x > 0 then 0x4000 else 0),
     vec3f_normalize = (\<lambda>v. v),
     hook_allow_hazard_surface = (\<lambda>m h. True),
     hook_allow_force_water_action = (\<lambda>m b. True),
     hook_before_phys_step_air = (\<lambda>m a. None),
     hook_before_phys_step_ground = (\<lambda>m. None),
     hook_override_phys_step_defacto_speed = (\<lambda>m. None),
     action_hook_gravity = (\<lambda>m. None),
     action_hook_every_frame = (\<lambda>mg. None),
     bouncyLevelBounds = BOUNCY_LEVEL_BOUNDS_OFF,
     fixCollisionBugs = False, fixCollisionBugsFalseLedgeGrab = False,
     fixCollisionBugsGroundPoundBonks = False, gDjuiInMainMenu = False,
     mario_update_wall = (\<lambda>m ws. (if ws = [] then None else Some (last ws), wallNormal m)),
     mario_get_terrain_sound_addend = (\<lambda>m. 0),
     mario_floor_is_slippery = (\<lambda>m. False),
     set_water_plunge_action = (\<lambda>m. (1, m)),
     set_character_animation = (\<lambda>m name. 6),
     SURFACE_IS_NOT_HARD = (\<lambda>t. False),
     handlers = (\<lambda>name mg. (0, mg))\<rparr>"

definition demo_globals :: Globals where
  "demo_globals =
    \<lparr>gFindWallDirection = Vec3f 0 0 0, gFindWallDirectionActive = False,
     gFindWallDirectionAirborne = False,
     gWaterSurfacePseudoFloor =
       \<lparr>surf_type = 0x13, surf_flags = 0, surf_force = 0, surf_normal = Vec3f 0 1 0,
        surf_originOffset = 0\<rparr>,
     errorLog = []\<rparr>"

text \<open>An actor in the air above the floor, falling, with nothing pressed.\<close>

definition demo_mario :: MarioState where
  "demo_mario =
    \<lparr>playerIndex = 0, input = 0, flags = 0x11, action = 0x0100088C, prevAction = 0x03000880,
     terrainSoundAddend = 0, actionState = 0, actionTimer = 0, actionArg = 0,
     faceAngle = Vec3s 0 0 0, angleVel = Vec3s 0 0 0, slideYaw = 0,
     pos = Vec3f 0 5 0, vel = Vec3f 0 (- 40) 0, forwardVel = 0, slideVelX = 0, slideVelZ = 0,
     wall = None, ceil = None, floor_ref = Some demo_floor, ceilHeight = 20000,
     floorHeight = 0, floorAngle = 0, waterLevel = - 11000, wallNormal = Vec3f 0 0 0,
     heldObj = False, hurtCounter = 0, squishTimer = 0, peakHeight = 5, quicksandDepth = 0,
     unkC4 = 0, terrainType = 0, hitboxHeight = 160, gfxPos = Vec3f 0 5 0,
     gfxAngle = Vec3s 0 0 0, animLoopEnd = 6, wingFlutter = False\<rparr>"



definition demo_ledge_env :: Env where
  "demo_ledge_env =
     demo_env\<lparr>find_floor :=
       (\<lambda>x y z. if x \<ge> 50 then (150, Some demo_floor) else (0, Some demo_floor))\<rparr>"

definition demo_wall :: Surface where
  "demo_wall = \<lparr>surf_type = 0, surf_flags = 0, surf_force = 0,
                 surf_normal = Vec3f (- 1) 0 0, surf_originOffset = 0\<rparr>"



definition demo_pound_mario :: MarioState where
  "demo_pound_mario =
     demo_mario\<lparr>action := 0x008008A9, actionState := 1, pos := Vec3f 0 1000 0,
                 vel := Vec3f 0 (- 50) 0, peakHeight := 1000\<rparr>"

definition demo_unknown_mario :: MarioState where
  "demo_unknown_mario = demo_mario\<lparr>action := 0x12345678\<rparr>"

section \<open>Collision-impulse transfer: the unguarded denominator\<close>

lemma transfer_bully_speed_None_iff:
  "transfer_bully_speed obj1 obj2 = None \<longleftrightarrow> posX obj2 = posX obj1 \<and> posZ obj2 = posZ obj1"
proof -
  have "(a * a + b * b = 0) = (a = 0 \<and> b = 0)" for a b :: real
    by (simp add: power2_eq_square [symmetric])
  then show ?thesis
    by (auto simp: transfer_bully_speed_def fdiv_def Let_def split: option.splits)
qed

text \<open>
  C9. The claim asks that the division by the squared horizontal distance be guarded, so
  that coincident bodies still get finite velocities. The source divides without a test
  (its own comment marks the line as the bully NaN crash): for two bodies at the same
  position the quotient is undefined and no finite velocities are produced.
\<close>

theorem transfer_bully_speed_coincident:
  "transfer_bully_speed
     \<lparr>conversionRatio = 1, radius = 50, posX = 100, posZ = 200, velX = 3, velZ = 4\<rparr>
     \<lparr>conversionRatio = 1, radius = 50, posX = 100, posZ = 200, velX = - 1, velZ = 2\<rparr> = None"
  by (simp add: transfer_bully_speed_def fdiv_def)

section \<open>Landing in an air quarter step\<close>

lemma air_queries_demo:
  "air_quarter_step_queries demo_env g p =
     \<lparr>nextPos = p, upperWalls = [], lowerWalls = [], q_floor = Some demo_floor,
      q_floorHeight = 0, q_ceil = None, q_ceilHeight = 20000, q_waterLevel = - 11000\<rparr>"
  by (simp add: air_quarter_step_queries_def demo_env_def)

text \<open>
  C1. In an air quarter step, let \<open>q\<close> be the results of the surface queries at the
  quarter-step target. If a floor is found, and the target height is at or below the
  height \<open>fh\<close> of the floor \<open>fl\<close> to land on (the floor found, or the water surface
  substituted for a shell rider), then the step reports landed, the final Y position is
  exactly \<open>fh\<close>, and the X/Z position, the floor reference and the floor height are
  those of the target when \<open>ceilHeight - floorHeight\<close> exceeds the hitbox height, and
  are unchanged otherwise.
\<close>

theorem perform_air_quarter_step_landed:
  assumes "air_quarter_step_queries e g intendedPos = q"
    and "q_floor q = Some f"
    and "water_pseudo_floor e g (m\<lparr>wall := None\<rparr>) (q_floorHeight q) (q_floor q) (q_waterLevel q)
           = (fh, fl, g1)"
    and "el1 (nextPos q) \<le> fh"
  shows "case perform_air_quarter_step e g m intendedPos stepArg of
           (r, m', g') \<Rightarrow>
             r = AIR_STEP_LANDED e \<and> el1 (pos m') = fh
             \<and> (if q_ceilHeight q - fh > hitboxHeight m
                 then el0 (pos m') = el0 (nextPos q) \<and> el2 (pos m') = el2 (nextPos q)
                      \<and> floor_ref m' = fl \<and> floorHeight m' = fh
                 else el0 (pos m') = el0 (pos m) \<and> el2 (pos m') = el2 (pos m)
                      \<and> floor_ref m' = floor_ref m \<and> floorHeight m' = floorHeight m)"
  using assms by (simp add: perform_air_quarter_step_def Let_def set_el1_def)

text \<open>
  On the sample level: a target 5 units below the floor, under a high ceiling.
\<close>

theorem perform_air_quarter_step_landed_witness:
  "air_quarter_step_queries demo_env demo_globals (Vec3f 10 (- 5) 20) =
     \<lparr>nextPos = Vec3f 10 (- 5) 20, upperWalls = [], lowerWalls = [],
      q_floor = Some demo_floor, q_floorHeight = 0, q_ceil = None, q_ceilHeight = 20000,
      q_waterLevel = - 11000\<rparr>
   \<and> water_pseudo_floor demo_env demo_globals (demo_mario\<lparr>wall := None\<rparr>) 0
        (Some demo_floor) (- 11000) = (0, Some demo_floor, demo_globals)
   \<and> (case perform_air_quarter_step demo_env demo_globals demo_mario (Vec3f 10 (- 5) 20) 0 of
        (r, m', g') \<Rightarrow>
          r = 1 \<and> pos m' = Vec3f 10 0 20 \<and> floor_ref m' = Some demo_floor
          \<and> floorHeight m' = 0)"
proof -
  let ?q = "\<lparr>nextPos = Vec3f 10 (- 5) 20, upperWalls = [], lowerWalls = [],
      q_floor = Some demo_floor, q_floorHeight = 0, q_ceil = None, q_ceilHeight = 20000,
      q_waterLevel = - 11000\<rparr>"
  have q: "air_quarter_step_queries demo_env demo_globals (Vec3f 10 (- 5) 20) = ?q"
    by (rule air_queries_demo)
  have w: "water_pseudo_floor demo_env demo_globals (demo_mario\<lparr>wall := None\<rparr>)
             (q_floorHeight ?q) (q_floor ?q) (q_waterLevel ?q) = (0, Some demo_floor, demo_globals)"
    by (simp add: water_pseudo_floor_def demo_env_def)
  have fl: "q_floor ?q = Some demo_floor" by simp
  have below: "el1 (nextPos ?q) \<le> 0" by simp
  have hb: "hitboxHeight demo_mario = 160" by (simp add: demo_mario_def)
  obtain r m' g' where
    res: "perform_air_quarter_step demo_env demo_globals demo_mario (Vec3f 10 (- 5) 20) 0
            = (r, m', g')"
    using prod_cases3 by blast
  have "r = AIR_STEP_LANDED demo_env \<and> el1 (pos m') = 0
        \<and> el0 (pos m') = 10 \<and> el2 (pos m') = 20 \<and> floor_ref m' = Some demo_floor
        \<and> floorHeight m' = 0"
    using perform_air_quarter_step_landed [OF q fl w below, of 0] res hb by simp
  moreover have "AIR_STEP_LANDED demo_env = 1" by (simp add: demo_env_def)
  ultimately have "r = 1 \<and> pos m' = Vec3f 10 0 20 \<and> floor_ref m' = Some demo_floor
          \<and> floorHeight m' = 0"
    by (cases "pos m'") simp
  then show ?thesis using q w res by simp
qed

section \<open>The quarter-step loop of the air step\<close>











section \<open>Ledge grab and vertical velocity\<close>

text \<open>
  C3. A ledge grab with strictly positive vertical velocity fails and leaves the actor
  unchanged, whatever else holds. With vertical velocity exactly 0 it succeeds when the
  wall pushed the actor against its velocity, the probe 60 units behind the wall normal
  at hitbox height finds a floor, that floor is more than 100 units above the target
  height and, where the false-ledge-grab fix is switched on, the floor is steep enough;
  the actor is then placed on the ledge.
\<close>

theorem check_ledge_grab_vertical_velocity:
  "(el1 (vel m) > 0 \<longrightarrow> check_ledge_grab e m w intendedPos np = (C_FALSE, m))
   \<and> (el1 (vel m) = 0
        \<and> (el0 np - el0 intendedPos) * el0 (vel m) + (el2 np - el2 intendedPos) * el2 (vel m) \<le> 0
        \<and> find_floor e (el0 np - el0 (surf_normal w) * 60) (el1 np + hitboxHeight m)
             (el2 np - el2 (surf_normal w) * 60) = (ledgeY, Some lf)
        \<and> ledgeY - el1 np > 100
        \<and> (fixCollisionBugs e \<and> fixCollisionBugsFalseLedgeGrab e
             \<longrightarrow> el1 (surf_normal lf) \<ge> 0.90630779)
       \<longrightarrow> fst (check_ledge_grab e m w intendedPos np) = C_TRUE
           \<and> pos (snd (check_ledge_grab e m w intendedPos np))
               = Vec3f (el0 np - el0 (surf_normal w) * 60) ledgeY
                       (el2 np - el2 (surf_normal w) * 60)
           \<and> floor_ref (snd (check_ledge_grab e m w intendedPos np)) = Some lf)"
  by (auto simp: check_ledge_grab_def Let_def)

text \<open>
  Next to the ledge: rising, the grab fails; with vertical velocity 0 it succeeds.
\<close>

theorem check_ledge_grab_vertical_velocity_witness:
  "el1 (vel (demo_mario\<lparr>vel := Vec3f 10 5 0\<rparr>)) > 0
   \<and> check_ledge_grab demo_ledge_env (demo_mario\<lparr>vel := Vec3f 10 5 0\<rparr>) demo_wall
        (Vec3f 45 20 0) (Vec3f 40 20 0) = (C_FALSE, demo_mario\<lparr>vel := Vec3f 10 5 0\<rparr>)
   \<and> el1 (vel (demo_mario\<lparr>vel := Vec3f 10 0 0\<rparr>)) = 0
   \<and> find_floor demo_ledge_env 100 180 0 = (150, Some demo_floor)
   \<and> fst (check_ledge_grab demo_ledge_env (demo_mario\<lparr>vel := Vec3f 10 0 0\<rparr>) demo_wall
        (Vec3f 45 20 0) (Vec3f 40 20 0)) = C_TRUE
   \<and> pos (snd (check_ledge_grab demo_ledge_env (demo_mario\<lparr>vel := Vec3f 10 0 0\<rparr>) demo_wall
        (Vec3f 45 20 0) (Vec3f 40 20 0))) = Vec3f 100 150 0"
proof -
  let ?up = "demo_mario\<lparr>vel := Vec3f 10 5 0\<rparr>"
  let ?m = "demo_mario\<lparr>vel := Vec3f 10 0 0\<rparr>"
  have up: "el1 (vel ?up) > 0" by simp
  have fails: "check_ledge_grab demo_ledge_env ?up demo_wall (Vec3f 45 20 0) (Vec3f 40 20 0)
                 = (C_FALSE, ?up)"
    using check_ledge_grab_vertical_velocity
            [of ?up demo_ledge_env demo_wall "Vec3f 45 20 0" "Vec3f 40 20 0"] up
    by blast
  have zero: "el1 (vel ?m) = 0" by simp
  have disp: "(el0 (Vec3f 40 20 0) - el0 (Vec3f 45 20 0)) * el0 (vel ?m)
              + (el2 (Vec3f 40 20 0) - el2 (Vec3f 45 20 0)) * el2 (vel ?m) \<le> 0"
    by simp
  have ff: "find_floor demo_ledge_env (el0 (Vec3f 40 20 0) - el0 (surf_normal demo_wall) * 60)
              (el1 (Vec3f 40 20 0) + hitboxHeight ?m)
              (el2 (Vec3f 40 20 0) - el2 (surf_normal demo_wall) * 60) = (150, Some demo_floor)"
    by (simp add: demo_ledge_env_def demo_env_def demo_wall_def demo_mario_def)
  have high: "150 - el1 (Vec3f 40 20 0) > (100::real)" by simp
  have steep: "fixCollisionBugs demo_ledge_env \<and> fixCollisionBugsFalseLedgeGrab demo_ledge_env
                 \<longrightarrow> el1 (surf_normal demo_floor) \<ge> 0.90630779"
    by (simp add: demo_ledge_env_def demo_env_def)
  have grabs: "fst (check_ledge_grab demo_ledge_env ?m demo_wall (Vec3f 45 20 0) (Vec3f 40 20 0))
                 = C_TRUE
       \<and> pos (snd (check_ledge_grab demo_ledge_env ?m demo_wall (Vec3f 45 20 0) (Vec3f 40 20 0)))
            = Vec3f (el0 (Vec3f 40 20 0) - el0 (surf_normal demo_wall) * 60) 150
                    (el2 (Vec3f 40 20 0) - el2 (surf_normal demo_wall) * 60)"
    using check_ledge_grab_vertical_velocity
            [of ?m demo_ledge_env demo_wall "Vec3f 45 20 0" "Vec3f 40 20 0" 150 demo_floor]
          zero disp ff high steep
    by blast
  have ff': "find_floor demo_ledge_env 100 180 0 = (150, Some demo_floor)"
    by (simp add: demo_ledge_env_def demo_env_def)
  show ?thesis
    using up fails zero grabs ff' by (simp add: demo_wall_def)
qed

section \<open>Fall damage\<close>

text \<open>
  C4. On a floor that is not burning, not twirling, with vertical velocity below -55: a
  fall of 3001 units makes the actor enter the supplied hard-fall action and adds 16 to
  the hurt counter with the cap on, 24 without; a fall of 1150.01 units on a floor that
  is not slippery adds 8 or 12, sets the squish timer to 30 and changes nothing else (no
  transition). The hurt counter is an unsigned 8-bit counter and the sums are taken in
  it.
\<close>

theorem check_fall_damage_thresholds:
  assumes "floor_ref m = Some f" and "surf_type f \<noteq> SURFACE_BURNING e"
    and "action m \<noteq> ACT_TWIRLING e" and "el1 (vel m) < - 55"
  shows "(peakHeight m - el1 (pos m) = 3001 \<longrightarrow>
            check_fall_damage e m hardFallAction
              = drop_and_set_mario_action
                  (m\<lparr>hurtCounter := hurtCounter m
                        + (if has_flag (flags m) (MARIO_CAP_ON_HEAD e) then 16 else 24)\<rparr>)
                  hardFallAction 4
            \<and> (case check_fall_damage e m hardFallAction of
               (r, m') \<Rightarrow> action m' = hardFallAction \<and> actionArg m' = 4
                  \<and> prevAction m' = action m
                  \<and> hurtCounter m' = hurtCounter m
                       + (if has_flag (flags m) (MARIO_CAP_ON_HEAD e) then 16 else 24)))
       \<and> (peakHeight m - el1 (pos m) = 1150.01 \<and> \<not> mario_floor_is_slippery e m \<longrightarrow>
            check_fall_damage e m hardFallAction
              = (C_FALSE,
                 m\<lparr>hurtCounter := hurtCounter m
                       + (if has_flag (flags m) (MARIO_CAP_ON_HEAD e) then 8 else 12),
                   squishTimer := 30\<rparr>))"
  using assms
  by (auto simp: check_fall_damage_def Let_def drop_and_set_mario_action_def
        set_mario_action_def)

text \<open>
  Falls of 3001 and of 1150.01 units with the cap on.
\<close>

theorem check_fall_damage_thresholds_witness:
  "floor_ref demo_mario = Some demo_floor
   \<and> el1 (vel (demo_mario\<lparr>vel := Vec3f 0 (- 60) 0, peakHeight := 3006\<rparr>)) < - 55
   \<and> peakHeight (demo_mario\<lparr>vel := Vec3f 0 (- 60) 0, peakHeight := 3006\<rparr>)
        - el1 (pos (demo_mario\<lparr>vel := Vec3f 0 (- 60) 0, peakHeight := 3006\<rparr>)) = 3001
   \<and> (case check_fall_damage demo_env
              (demo_mario\<lparr>vel := Vec3f 0 (- 60) 0, peakHeight := 3006\<rparr>) 0x00020460 of
         (r, m') \<Rightarrow> action m' = 0x00020460 \<and> hurtCounter m' = 16)
   \<and> peakHeight (demo_mario\<lparr>vel := Vec3f 0 (- 60) 0, peakHeight := 1155.01\<rparr>)
        - el1 (pos (demo_mario\<lparr>vel := Vec3f 0 (- 60) 0, peakHeight := 1155.01\<rparr>)) = 1150.01
   \<and> check_fall_damage demo_env
        (demo_mario\<lparr>vel := Vec3f 0 (- 60) 0, peakHeight := 1155.01\<rparr>) 0x00020460
       = (0, demo_mario\<lparr>vel := Vec3f 0 (- 60) 0, peakHeight := 1155.01, hurtCounter := 8,
                        squishTimer := 30\<rparr>)"
proof -
  let ?far = "demo_mario\<lparr>vel := Vec3f 0 (- 60) 0, peakHeight := 3006\<rparr>"
  let ?near = "demo_mario\<lparr>vel := Vec3f 0 (- 60) 0, peakHeight := 1155.01\<rparr>"
  have fl: "floor_ref ?far = Some demo_floor" "floor_ref ?near = Some demo_floor"
    by (simp_all add: demo_mario_def)
  have nb: "surf_type demo_floor \<noteq> SURFACE_BURNING demo_env"
    by (simp add: demo_floor_def demo_env_def)
  have tw: "action ?far \<noteq> ACT_TWIRLING demo_env"
    "action ?near \<noteq> ACT_TWIRLING demo_env"
    by (simp_all add: demo_mario_def demo_env_def)
  have v: "el1 (vel ?far) < - 55" "el1 (vel ?near) < - 55" by simp_all
  have h3001: "peakHeight ?far - el1 (pos ?far) = 3001" by (simp add: demo_mario_def)
  have h1150: "peakHeight ?near - el1 (pos ?near) = 1150.01" by (simp add: demo_mario_def)
  have slip: "\<not> mario_floor_is_slippery demo_env ?near" by (simp add: demo_env_def)
  have cap: "has_flag (flags ?far) (MARIO_CAP_ON_HEAD demo_env)"
    "has_flag (flags ?near) (MARIO_CAP_ON_HEAD demo_env)"
    by (simp_all add: has_flag_def demo_mario_def demo_env_def)
  have hc: "hurtCounter ?far = 0" "hurtCounter ?near = 0" by (simp_all add: demo_mario_def)
  have hard: "case check_fall_damage demo_env ?far 0x00020460 of
                (r, m') \<Rightarrow> action m' = 0x00020460 \<and> hurtCounter m' = 16"
    using check_fall_damage_thresholds [OF fl(1) nb tw(1) v(1), of "0x00020460"] h3001 cap(1) hc(1)
    by (auto split: prod.splits)
  have minor: "check_fall_damage demo_env ?near 0x00020460
       = (0, demo_mario\<lparr>vel := Vec3f 0 (- 60) 0, peakHeight := 1155.01, hurtCounter := 8,
                        squishTimer := 30\<rparr>)"
    using check_fall_damage_thresholds [OF fl(2) nb tw(2) v(2), of "0x00020460"] h1150 slip cap(2)
          hc(2)
    by (simp add: C_FALSE_def)
  show ?thesis
    using fl(1) v(1) h3001 hard h1150 minor by (simp add: demo_mario_def)
qed

section \<open>Deep quicksand\<close>



section \<open>Horizontal wind\<close>




section \<open>The ground pound\<close>

lemma demo_pound_step:
  "perform_air_step demo_env demo_globals
     (demo_pound_mario\<lparr>flags := flags demo_pound_mario OR 0x10000, animLoopEnd := 6\<rparr>) 0
   = (0, demo_pound_mario\<lparr>flags := flags demo_pound_mario OR 0x10000, animLoopEnd := 6,
          pos := Vec3f 0 950 0, vel := Vec3f 0 (- 54) 0, gfxPos := Vec3f 0 950 0\<rparr>,
      demo_globals\<lparr>gFindWallDirection := Vec3f 0 (- 50 / 4) 0\<rparr>)"
proof -
  have four: "(4::nat) = Suc (Suc (Suc (Suc 0)))" by simp
  show ?thesis
    unfolding perform_air_step_def four
    by (simp add: air_step_iteration_def perform_air_quarter_step_def
        air_quarter_step_queries_def water_pseudo_floor_def demo_env_def
        demo_pound_mario_def demo_mario_def demo_globals_def has_flag_def stops_air_step_def
        set_el1_def Let_def apply_gravity_def apply_vertical_wind_def fall_with_def
        should_strengthen_gravity_for_jump_ascent_def)
qed

lemma has_flag_zero: "\<not> has_flag 0 f"
  by (simp add: has_flag_def)

lemma air_wall_loop_keeps:
  "air_wall_loop e m ws = (r, m') \<Longrightarrow>
     vel m' = vel m \<and> action m' = action m \<and> input m' = input m"
  by (induction ws) (auto simp: Let_def split: if_splits)

lemma store_wall_keeps:
  "vel (store_wall e m ws) = vel m \<and> action (store_wall e m ws) = action m
   \<and> input (store_wall e m ws) = input m"
  by (simp add: store_wall_def split: prod.splits)

lemma bounce_off_level_bounds_keeps:
  "el1 (vel (bounce_off_level_bounds e m)) = el1 (vel m)
   \<and> action (bounce_off_level_bounds e m) = action m
   \<and> input (bounce_off_level_bounds e m) = input m"
  by (simp add: bounce_off_level_bounds_def mario_set_forward_vel_def Let_def)

lemma perform_air_quarter_step_keeps:
  assumes "perform_air_quarter_step e g m intendedPos 0 = (r, m', g')" and "el1 (vel m) < 0"
  shows "el1 (vel m') = el1 (vel m) \<and> action m' = action m \<and> input m' = input m"
proof -
  obtain fh fl g1 where w: "water_pseudo_floor e g (m\<lparr>wall := None\<rparr>)
      (q_floorHeight (air_quarter_step_queries e g intendedPos))
      (q_floor (air_quarter_step_queries e g intendedPos))
      (q_waterLevel (air_quarter_step_queries e g intendedPos)) = (fh, fl, g1)"
    using prod_cases3 by blast
  show ?thesis
    using assms w
    by (auto simp: perform_air_quarter_step_def Let_def bounce_off_level_bounds_keeps
          store_wall_keeps set_el1_def has_flag_zero
        split: if_splits prod.splits dest!: air_wall_loop_keeps)
qed

lemma air_step_iteration_keeps:
  assumes "air_step_iteration e g m 0 = (r, m', g')" and "el1 (vel m) < 0"
  shows "el1 (vel m') = el1 (vel m) \<and> action m' = action m \<and> input m' = input m"
  using assms
  by (auto simp: air_step_iteration_def Let_def split: prod.splits
      dest!: perform_air_quarter_step_keeps)

lemma air_step_loop_keeps:
  "air_step_loop n e g m 0 sr = (r, m', g') \<Longrightarrow> el1 (vel m) < 0 \<Longrightarrow>
     el1 (vel m') = el1 (vel m) \<and> action m' = action m \<and> input m' = input m"
proof (induction n arbitrary: g m sr)
  case 0
  then show ?case by simp
next
  case (Suc n)
  obtain q m1 g1 where it: "air_step_iteration e g m 0 = (q, m1, g1)"
    using prod_cases3 by blast
  note k = air_step_iteration_keeps [OF it Suc.prems(2)]
  show ?case
  proof (cases "stops_air_step e q")
    case True
    then show ?thesis using it Suc.prems(1) k by simp
  next
    case False
    then have "air_step_loop n e g1 m1 0 (if q \<noteq> AIR_STEP_NONE e then q else sr) = (r, m', g')"
      using it Suc.prems(1) by simp
    from Suc.IH [OF this] k Suc.prems(2) show ?thesis by simp
  qed
qed

lemma should_strengthen_falling:
  "el1 (vel m) \<le> 20 \<Longrightarrow> \<not> should_strengthen_gravity_for_jump_ascent e m"
  by (simp add: should_strengthen_gravity_for_jump_ascent_def)

lemma apply_gravity_default:
  assumes "action_hook_gravity e s = None" and "action s = ACT_GROUND_POUND e"
    and "ACT_GROUND_POUND e \<notin> {ACT_TWIRLING e, ACT_SHOT_FROM_CANNON e, ACT_LONG_JUMP e, ACT_SLIDE_KICK e, ACT_BBH_ENTER_SPIN e, ACT_LAVA_BOOST e, ACT_FALL_AFTER_STAR_GRAB e, ACT_GETTING_BLOWN e, ACT_FLYING e, ACT_BUBBLED e}"
    and "\<not> has_flag (action s) (ACT_FLAG_METAL_WATER e)"
    and "\<not> has_flag (input s) (INPUT_A_DOWN e)"
    and "el1 (vel s) < 0"
  shows "apply_gravity e s = fall_with s 4 (- 75)"
  using assms by (simp add: apply_gravity_def should_strengthen_falling)

lemma apply_vertical_wind_ground_pound:
  "action s = ACT_GROUND_POUND e \<Longrightarrow> apply_vertical_wind e s = s"
  by (simp add: apply_vertical_wind_def)

lemma perform_air_step_ground_pound:
  assumes neg: "el1 (vel m) < 0" and act: "action m = ACT_GROUND_POUND e"
    and others: "ACT_GROUND_POUND e \<notin> {ACT_TWIRLING e, ACT_SHOT_FROM_CANNON e, ACT_LONG_JUMP e, ACT_SLIDE_KICK e, ACT_BBH_ENTER_SPIN e, ACT_LAVA_BOOST e, ACT_FALL_AFTER_STAR_GRAB e, ACT_GETTING_BLOWN e, ACT_FLYING e, ACT_BUBBLED e}"
    and metal: "\<not> has_flag (action m) (ACT_FLAG_METAL_WATER e)"
    and a_up: "\<not> has_flag (input m) (INPUT_A_DOWN e)"
    and hook: "hook_before_phys_step_air e m 0 = None"
    and grav: "\<forall>s. action_hook_gravity e s = None"
    and step: "perform_air_step e g m 0 = (r, m', g')"
  shows "el1 (vel m') = (if el1 (vel m) - 4 < - 75 then - 75 else el1 (vel m) - 4)
         \<and> action m' = action m"
proof -
  obtain sr m1 g1 where
    loop: "air_step_loop 4 e g (m\<lparr>wall := None\<rparr>) 0 (AIR_STEP_NONE e) = (sr, m1, g1)"
    using prod_cases3 by blast
  have k: "el1 (vel m1) = el1 (vel m)" "action m1 = action m" "input m1 = input m"
    using air_step_loop_keeps [OF loop] neg by simp_all
  define m3 where "m3 = m1\<lparr>terrainSoundAddend := mario_get_terrain_sound_addend e m1\<rparr>"
  have k3: "el1 (vel m3) = el1 (vel m)" "action m3 = action m" "input m3 = input m"
    using k by (simp_all add: m3_def)
  have fly: "action m1 \<noteq> ACT_FLYING e" "action m1 \<noteq> ACT_BUBBLED e"
    using others k act by auto
  have g4: "apply_gravity e m3 = fall_with m3 4 (- 75)"
    using grav act others metal a_up neg k3 by (intro apply_gravity_default) simp_all
  have w5: "apply_vertical_wind e (fall_with m3 4 (- 75)) = fall_with m3 4 (- 75)"
    using k3 act by (intro apply_vertical_wind_ground_pound) (simp add: fall_with_def)
  have "perform_air_step e g m 0 =
          (sr, (fall_with m3 4 (- 75))\<lparr>gfxPos := pos (fall_with m3 4 (- 75)),
                 gfxAngle := Vec3s 0 (ang1 (faceAngle (fall_with m3 4 (- 75)))) 0\<rparr>, g1)"
    unfolding perform_air_step_def hook loop
    using k(1) neg fly g4 w5 by (simp add: m3_def [symmetric] Let_def)
  then have "m' = (fall_with m3 4 (- 75))\<lparr>gfxPos := pos (fall_with m3 4 (- 75)),
                 gfxAngle := Vec3s 0 (ang1 (faceAngle (fall_with m3 4 (- 75)))) 0\<rparr>"
    using step by simp
  then show ?thesis
    using k3 by (simp add: fall_with_def set_el1_def)
qed

lemma set_mario_action_vel: "vel (snd (set_mario_action s a b)) = vel s"
  by (simp add: set_mario_action_def)

lemma check_fall_damage_vel: "vel (snd (check_fall_damage e s a)) = vel s"
  by (simp add: check_fall_damage_def Let_def drop_and_set_mario_action_def set_mario_action_def)

lemma mario_set_forward_vel_el1: "el1 (vel (mario_set_forward_vel e s v)) = el1 (vel s)"
  by (simp add: mario_set_forward_vel_def Let_def)

lemma ground_pound_step_reaction_keeps:
  assumes "\<not> el1 (vel s) > 0"
  shows "el1 (vel (ground_pound_step_reaction e sr s)) = el1 (vel s)"
proof -
  obtain d s1 where cfd: "check_fall_damage e s (ACT_HARD_BACKWARD_GROUND_KB e) = (d, s1)"
    by (cases "check_fall_damage e s (ACT_HARD_BACKWARD_GROUND_KB e)") auto
  have s1: "vel s1 = vel s"
    using check_fall_damage_vel [of e s "ACT_HARD_BACKWARD_GROUND_KB e"] cfd by simp
  show ?thesis
    using assms s1
    by (simp add: ground_pound_step_reaction_def cfd Let_def set_mario_action_vel
          mario_set_forward_vel_el1)
qed

lemma ground_pound_rise_sets:
  "el1 (vel (ground_pound_rise e s)) = - 50 \<and> action (ground_pound_rise e s) = action s
   \<and> (actionState s = 0 \<longrightarrow>
        actionState (ground_pound_rise e s) = 0 \<or> actionState (ground_pound_rise e s) = 1)"
  by (simp add: ground_pound_rise_def Let_def mario_set_forward_vel_def set_el1_def)

lemma act_ground_pound_plunge:
  assumes st: "actionState m \<noteq> 0" and neg: "el1 (vel m) < 0"
    and act: "action m = ACT_GROUND_POUND e"
    and others: "ACT_GROUND_POUND e \<notin> {ACT_TWIRLING e, ACT_SHOT_FROM_CANNON e, ACT_LONG_JUMP e, ACT_SLIDE_KICK e, ACT_BBH_ENTER_SPIN e, ACT_LAVA_BOOST e, ACT_FALL_AFTER_STAR_GRAB e, ACT_GETTING_BLOWN e, ACT_FLYING e, ACT_BUBBLED e}"
    and metal: "\<not> has_flag (action m) (ACT_FLAG_METAL_WATER e)"
    and a_up: "\<not> has_flag (input m) (INPUT_A_DOWN e)"
    and hook: "\<forall>s a. hook_before_phys_step_air e s a = None"
    and grav: "\<forall>s. action_hook_gravity e s = None"
  shows "case act_ground_pound e (m, g) of
           (r, m', g') \<Rightarrow> r = C_FALSE
             \<and> el1 (vel m') = (if el1 (vel m) - 4 < - 75 then - 75 else el1 (vel m) - 4)"
proof -
  define mp where "mp = play_sound_if_no_flag m (MARIO_ACTION_SOUND_PLAYED e)"
  define m0 where
    "m0 = mp\<lparr>animLoopEnd := set_character_animation e mp ''CHAR_ANIM_GROUND_POUND''\<rparr>"
  have m0: "el1 (vel m0) = el1 (vel m)" "action m0 = action m" "input m0 = input m"
    by (simp_all add: m0_def mp_def play_sound_if_no_flag_def)
  have stp: "actionState mp \<noteq> 0"
    using st by (simp add: mp_def play_sound_if_no_flag_def)
  obtain sr m1 g1 where step: "perform_air_step e g m0 0 = (sr, m1, g1)"
    using prod_cases3 by blast
  have "el1 (vel m1) = (if el1 (vel m0) - 4 < - 75 then - 75 else el1 (vel m0) - 4)
        \<and> action m1 = action m0"
  proof (rule perform_air_step_ground_pound [OF _ _ others _ _ _ grav step])
    show "el1 (vel m0) < 0" using neg m0 by simp
    show "action m0 = ACT_GROUND_POUND e" using act m0 by simp
    show "\<not> has_flag (action m0) (ACT_FLAG_METAL_WATER e)" using metal m0 by simp
    show "\<not> has_flag (input m0) (INPUT_A_DOWN e)" using a_up m0 by simp
    show "hook_before_phys_step_air e m0 0 = None" using hook by blast
  qed
  then have v: "el1 (vel m1) = (if el1 (vel m) - 4 < - 75 then - 75 else el1 (vel m) - 4)"
    using m0 by simp
  then have nonpos: "\<not> el1 (vel m1) > 0" using neg by (simp split: if_splits)
  have "act_ground_pound e (m, g) =
          (let (stepResult, m2, g2) = perform_air_step e g m0 0
           in (C_FALSE, ground_pound_step_reaction e stepResult m2, g2))"
    unfolding act_ground_pound_def Let_def fst_conv snd_conv mp_def [symmetric] m0_def [symmetric]
    using stp by simp
  then have "act_ground_pound e (m, g) = (C_FALSE, ground_pound_step_reaction e sr m1, g1)"
    unfolding step by simp
  then show ?thesis
    using ground_pound_step_reaction_keeps [OF nonpos, of e sr] v by simp
qed


lemma act_ground_pound_rise:
  assumes "actionState m = 0"
  shows "case act_ground_pound e (m, g) of
           (r, m', g') \<Rightarrow> r = C_FALSE \<and> el1 (vel m') = - 50 \<and> action m' = action m
             \<and> (actionState m' = 0 \<or> actionState m' = 1)"
proof -
  define mp where "mp = play_sound_if_no_flag m (MARIO_ACTION_SOUND_PLAYED e)"
  have mp: "actionState mp = 0" "action mp = action m"
    using assms by (simp_all add: mp_def play_sound_if_no_flag_def)
  have "act_ground_pound e (m, g) = (C_FALSE, ground_pound_rise e mp, g)"
    unfolding act_ground_pound_def Let_def fst_conv snd_conv mp_def [symmetric]
    using mp by simp
  then show ?thesis
    using ground_pound_rise_sets [of e mp] mp by simp
qed

text \<open>
  C7, as amended. The handler has two phases. In the rise phase (action state 0) every
  tick sets the vertical velocity to -50, keeps the action and stays in the rise phase
  or enters the plunge phase (action state 1). In the plunge phase the handler does not
  set the velocity: the air step applies gravity to it. For a falling actor in the
  ground-pound action, with no phys-step or gravity hook installed, the A button not
  held and the action not one of those with a gravity rule of their own, a plunge tick
  lowers the vertical velocity by 4, not below -75.
\<close>

theorem act_ground_pound_phases:
  "(actionState m = 0 \<longrightarrow>
      (case act_ground_pound e (m, g) of
         (r, m', g') \<Rightarrow> r = C_FALSE \<and> el1 (vel m') = - 50 \<and> action m' = action m
            \<and> (actionState m' = 0 \<or> actionState m' = 1)))
   \<and> (actionState m \<noteq> 0 \<and> el1 (vel m) < 0 \<and> action m = ACT_GROUND_POUND e
        \<and> ACT_GROUND_POUND e \<notin> {ACT_TWIRLING e, ACT_SHOT_FROM_CANNON e, ACT_LONG_JUMP e, ACT_SLIDE_KICK e, ACT_BBH_ENTER_SPIN e, ACT_LAVA_BOOST e, ACT_FALL_AFTER_STAR_GRAB e, ACT_GETTING_BLOWN e, ACT_FLYING e, ACT_BUBBLED e}
        \<and> \<not> has_flag (action m) (ACT_FLAG_METAL_WATER e)
        \<and> \<not> has_flag (input m) (INPUT_A_DOWN e)
        \<and> (\<forall>s a. hook_before_phys_step_air e s a = None)
        \<and> (\<forall>s. action_hook_gravity e s = None)
      \<longrightarrow>
      (case act_ground_pound e (m, g) of
         (r, m', g') \<Rightarrow> r = C_FALSE
            \<and> el1 (vel m') = (if el1 (vel m) - 4 < - 75 then - 75 else el1 (vel m) - 4)))"
proof (intro conjI impI, goal_cases)
  case 1
  then show ?case by (rule act_ground_pound_rise)
next
  case 2
  then show ?case by (elim conjE) (rule act_ground_pound_plunge)
qed

text \<open>
  A rise tick and a plunge tick of the sample actor, 1000 units above the floor.
\<close>

theorem act_ground_pound_phases_witness:
  "actionState (demo_pound_mario\<lparr>actionState := 0\<rparr>) = 0
   \<and> (case act_ground_pound demo_env (demo_pound_mario\<lparr>actionState := 0\<rparr>, demo_globals) of
         (r, m', g') \<Rightarrow> r = C_FALSE \<and> el1 (vel m') = - 50)
   \<and> actionState demo_pound_mario \<noteq> 0 \<and> el1 (vel demo_pound_mario) = - 50
   \<and> (case act_ground_pound demo_env (demo_pound_mario, demo_globals) of
         (r, m', g') \<Rightarrow> r = C_FALSE \<and> el1 (vel m') = - 54)"
proof -
  let ?rise = "demo_pound_mario\<lparr>actionState := 0\<rparr>"
  have r0: "actionState ?rise = 0" by simp
  have rise: "case act_ground_pound demo_env (?rise, demo_globals) of
         (r, m', g') \<Rightarrow> r = C_FALSE \<and> el1 (vel m') = - 50"
    using act_ground_pound_phases [of ?rise demo_env demo_globals] r0
    by (auto split: prod.splits)
  have st: "actionState demo_pound_mario \<noteq> 0" "el1 (vel demo_pound_mario) = - 50"
    "el1 (vel demo_pound_mario) < 0"
    "action demo_pound_mario = ACT_GROUND_POUND demo_env"
    by (simp_all add: demo_pound_mario_def demo_env_def)
  have others: "ACT_GROUND_POUND demo_env \<notin> {ACT_TWIRLING demo_env, ACT_SHOT_FROM_CANNON demo_env, ACT_LONG_JUMP demo_env, ACT_SLIDE_KICK demo_env, ACT_BBH_ENTER_SPIN demo_env, ACT_LAVA_BOOST demo_env, ACT_FALL_AFTER_STAR_GRAB demo_env, ACT_GETTING_BLOWN demo_env, ACT_FLYING demo_env, ACT_BUBBLED demo_env}"
    by (simp add: demo_env_def)
  have fl: "\<not> has_flag (action demo_pound_mario) (ACT_FLAG_METAL_WATER demo_env)"
    "\<not> has_flag (input demo_pound_mario) (INPUT_A_DOWN demo_env)"
    by (simp_all add: has_flag_def demo_pound_mario_def demo_mario_def demo_env_def)
  have hooks: "\<forall>s a. hook_before_phys_step_air demo_env s a = None"
    "\<forall>s. action_hook_gravity demo_env s = None"
    by (simp_all add: demo_env_def)
  have plunge: "case act_ground_pound demo_env (demo_pound_mario, demo_globals) of
         (r, m', g') \<Rightarrow> r = C_FALSE \<and> el1 (vel m') = - 54"
    using act_ground_pound_phases [of demo_pound_mario demo_env demo_globals]
          st others fl hooks
    by (auto split: prod.splits)
  show ?thesis using r0 rise st(1,2) plunge by blast
qed

text \<open>
  C7, as stated, fails: a tick of the plunge phase that starts with vertical velocity
  -50 ends, still in the plunge phase of the ground pound, with vertical velocity -54.
\<close>

theorem act_ground_pound_plunge_counterexample:
  "actionState demo_pound_mario = 1
   \<and> action demo_pound_mario = ACT_GROUND_POUND demo_env
   \<and> vel demo_pound_mario = Vec3f 0 (- 50) 0
   \<and> (case act_ground_pound demo_env (demo_pound_mario, demo_globals) of
         (r, m', g') \<Rightarrow>
           actionState m' = 1 \<and> action m' = ACT_GROUND_POUND demo_env
           \<and> pos m' = Vec3f 0 950 0 \<and> vel m' = Vec3f 0 (- 54) 0
           \<and> el1 (vel m') \<noteq> - 50)"
proof -
  have c: "MARIO_ACTION_SOUND_PLAYED demo_env = 0x10000"
    "set_character_animation demo_env = (\<lambda>m name. 6)"
    "AIR_STEP_LANDED demo_env = 1" "AIR_STEP_HIT_WALL demo_env = 2"
    "ACT_GROUND_POUND demo_env = 0x008008A9"
    by (simp_all add: demo_env_def)
  have st: "actionState demo_pound_mario = 1" "action demo_pound_mario = 0x008008A9"
    "vel demo_pound_mario = Vec3f 0 (- 50) 0"
    by (simp_all add: demo_pound_mario_def)
  have "act_ground_pound demo_env (demo_pound_mario, demo_globals) =
     (C_FALSE, demo_pound_mario\<lparr>flags := flags demo_pound_mario OR 0x10000, animLoopEnd := 6,
          pos := Vec3f 0 950 0, vel := Vec3f 0 (- 54) 0, gfxPos := Vec3f 0 950 0\<rparr>,
      demo_globals\<lparr>gFindWallDirection := Vec3f 0 (- 50 / 4) 0\<rparr>)"
    unfolding act_ground_pound_def
    by (simp add: Let_def play_sound_if_no_flag_def c st demo_pound_step
          ground_pound_step_reaction_def)
  then show ?thesis using st c by simp
qed

section \<open>The airborne dispatcher\<close>

lemma find_handler_miss:
  "\<forall>label \<in> fst ` set table. a \<noteq> label e \<Longrightarrow> find_handler e a table = None"
  by (induction table) auto

text \<open>
  C8. When the tick-level cancels do not fire, the per-tick hook does not handle the
  tick, and the action identifier is not one of the case labels of the dispatch table,
  the dispatcher logs the identifier as an error, sets the action to free fall and
  returns false; no handler enters the result.
\<close>

theorem mario_execute_airborne_action_unknown:
  assumes "check_common_airborne_cancels e m = (cancelled, m1)" and "cancelled = 0"
    and "m2 = play_far_fall_sound e m1"
    and "action_hook_every_frame e (m2, g) = None"
    and "\<forall>label \<in> fst ` set airborne_action_table. action m2 \<noteq> label e"
  shows "mario_execute_airborne_action e (m, g) =
           (C_FALSE, snd (set_mario_action m2 (ACT_FREEFALL e) 0),
            g\<lparr>errorLog := errorLog g @ [action m2]\<rparr>)
         \<and> snd (set_mario_action m2 (ACT_FREEFALL e) 0) =
             m2\<lparr>prevAction := action m2, action := ACT_FREEFALL e, actionArg := 0,
                actionState := 0, actionTimer := 0\<rparr>"
  using assms(1-4) find_handler_miss [OF assms(5)]
  by (simp add: mario_execute_airborne_action_def set_mario_action_def Let_def)

text \<open>
  An actor whose action identifier is not a label of the dispatch table.
\<close>

theorem mario_execute_airborne_action_unknown_witness:
  "check_common_airborne_cancels demo_env demo_unknown_mario
     = (0, demo_unknown_mario\<lparr>quicksandDepth := 0\<rparr>)
   \<and> action_hook_every_frame demo_env (demo_unknown_mario\<lparr>quicksandDepth := 0\<rparr>, demo_globals)
       = None
   \<and> find_handler demo_env 0x12345678 airborne_action_table = None
   \<and> mario_execute_airborne_action demo_env (demo_unknown_mario, demo_globals)
       = (0, demo_unknown_mario\<lparr>quicksandDepth := 0, prevAction := 0x12345678,
               action := 0x0100088C, actionArg := 0, actionState := 0, actionTimer := 0\<rparr>,
          demo_globals\<lparr>errorLog := [0x12345678]\<rparr>)"
proof -
  let ?m1 = "demo_unknown_mario\<lparr>quicksandDepth := 0\<rparr>"
  have cancels: "check_common_airborne_cancels demo_env demo_unknown_mario = (0, ?m1)"
    by (simp add: check_common_airborne_cancels_def demo_unknown_mario_def demo_mario_def
          demo_env_def demo_floor_def has_flag_def C_FALSE_def)
  have sound: "?m1 = play_far_fall_sound demo_env ?m1"
    by (simp add: play_far_fall_sound_def demo_unknown_mario_def demo_mario_def)
  have hook: "action_hook_every_frame demo_env (?m1, demo_globals) = None"
    by (simp add: demo_env_def)
  have act: "action ?m1 = 0x12345678" by (simp add: demo_unknown_mario_def)
  have miss: "\<forall>label \<in> fst ` set airborne_action_table. action ?m1 \<noteq> label demo_env"
    unfolding act by (simp add: airborne_action_table_def demo_env_def)
  have none: "find_handler demo_env 0x12345678 airborne_action_table = None"
    using miss unfolding act by (rule find_handler_miss)
  have free: "ACT_FREEFALL demo_env = 0x0100088C"
    by (simp add: demo_env_def)
  have log: "errorLog demo_globals = []" by (simp add: demo_globals_def)
  have "mario_execute_airborne_action demo_env (demo_unknown_mario, demo_globals)
       = (0, demo_unknown_mario\<lparr>quicksandDepth := 0, prevAction := 0x12345678,
               action := 0x0100088C, actionArg := 0, actionState := 0, actionTimer := 0\<rparr>,
          demo_globals\<lparr>errorLog := [0x12345678]\<rparr>)"
    using mario_execute_airborne_action_unknown [OF cancels refl sound hook miss]
    by (simp add: act free log C_FALSE_def)
  then show ?thesis using cancels hook none by simp
qed

section \<open>NULL actors\<close>


end
